theory Spec2Isabelle
  imports Complex_Main "HOL-Library.AList" "HOL-Library.Char_ord" "HOL-Library.List_Lexorder"
begin

section \<open>Strings and characters\<close>

text \<open>
  Python strings are modelled as \<open>string\<close>; a \<open>char\<close> stands for a code point below 256.
  The character classes below are those of Python's \<open>str\<close> methods on that range:
  \<open>isdigit\<close> also accepts the superscript digits, \<open>isalnum\<close> the Latin-1 letters and
  vulgar fractions, \<open>isspace\<close> the separators U+001C..U+001F, U+0085 and U+00A0.
\<close>

definition isdigit :: "char \<Rightarrow> bool" where
  "isdigit c =
     (let n = (of_char c :: nat)
      in (48 \<le> n \<and> n \<le> 57) \<or> n = 178 \<or> n = 179 \<or> n = 185)"

definition isalnum :: "char \<Rightarrow> bool" where
  "isalnum c =
     (let n = (of_char c :: nat)
      in (48 \<le> n \<and> n \<le> 57) \<or> (65 \<le> n \<and> n \<le> 90) \<or> (97 \<le> n \<and> n \<le> 122)
         \<or> n = 170 \<or> n = 178 \<or> n = 179 \<or> n = 181 \<or> n = 185 \<or> n = 186
         \<or> n = 188 \<or> n = 189 \<or> n = 190
         \<or> (192 \<le> n \<and> n \<le> 214) \<or> (216 \<le> n \<and> n \<le> 246) \<or> (248 \<le> n \<and> n \<le> 255))"

definition isspace :: "char \<Rightarrow> bool" where
  "isspace c =
     (let n = (of_char c :: nat)
      in (9 \<le> n \<and> n \<le> 13) \<or> (28 \<le> n \<and> n \<le> 32) \<or> n = 133 \<or> n = 160)"

definition lower_char :: "char \<Rightarrow> char" where
  "lower_char c =
     (let n = (of_char c :: nat)
      in if (65 \<le> n \<and> n \<le> 90) \<or> (192 \<le> n \<and> n \<le> 214) \<or> (216 \<le> n \<and> n \<le> 222)
         then char_of (n + 32) else c)"

definition lower :: "string \<Rightarrow> string" where
  "lower s = map lower_char s"

text \<open>\<open>s.replace(a, b)\<close> for one-character \<open>a\<close> and \<open>b\<close>.\<close>

definition replace_char :: "char \<Rightarrow> char \<Rightarrow> string \<Rightarrow> string" where
  "replace_char a b s = map (\<lambda>c. if c = a then b else c) s"

text \<open>\<open>s.startswith(p)\<close>.\<close>

definition startswith :: "string \<Rightarrow> string \<Rightarrow> bool" where
  "startswith s p = (take (length p) s = p)"

text \<open>\<open>s.split()\<close>: the maximal runs of non-whitespace characters, in order.\<close>

fun split_acc :: "string \<Rightarrow> string \<Rightarrow> string list" where
  "split_acc [] cur = (if cur = [] then [] else [rev cur])"
| "split_acc (c # cs) cur =
     (if isspace c then (if cur = [] then split_acc cs [] else rev cur # split_acc cs [])
      else split_acc cs (c # cur))"

definition split_ws :: "string \<Rightarrow> string list" where
  "split_ws s = split_acc s []"

text \<open>\<open>s.strip()\<close>: whitespace removed at both ends.\<close>

definition strip :: "string \<Rightarrow> string" where
  "strip s = rev (dropWhile isspace (rev (dropWhile isspace s)))"

text \<open>\<open>str(n)\<close> for a non-negative integer.\<close>

definition digit_char :: "nat \<Rightarrow> char" where
  "digit_char d = char_of (48 + d)"

fun str_nat :: "nat \<Rightarrow> string" where
  "str_nat n = (if n < 10 then [digit_char n] else str_nat (n div 10) @ [digit_char (n mod 10)])"

declare str_nat.simps [simp del]

section \<open>Errors and logging\<close>

text \<open>
  The exceptions the modelled code can raise. A function that can raise returns
  \<open>error + 'a\<close>, with \<open>Inl\<close> for the exception. Of the logger calls, the warnings and
  the errors are recorded (as \<open>log_entry\<close> values); info and debug messages are not.
\<close>

datatype error =
  ValueError | TypeError | AttributeError | FileNotFoundError | RuntimeError | OSError

datatype level = WARNING | ERROR

datatype log_entry = Log level string

definition bind_err :: "error + 'a \<Rightarrow> ('a \<Rightarrow> error + 'b) \<Rightarrow> error + 'b" where
  "bind_err m f = (case m of Inl e \<Rightarrow> Inl e | Inr v \<Rightarrow> f v)"

text \<open>
  Floating-point values are modelled as reals. Python's \<open>float(s)\<close> is a parameter
  \<open>pf :: string \<Rightarrow> real option\<close> of the parsing functions (\<open>None\<close> when \<open>float\<close> raises
  ValueError); \<open>float(None)\<close> raises TypeError, and \<open>None.strip()\<close> AttributeError.
\<close>

definition float_text :: "(string \<Rightarrow> real option) \<Rightarrow> string option \<Rightarrow> error + real" where
  "float_text pf t =
     (case t of None \<Rightarrow> Inl TypeError
      | Some s \<Rightarrow> (case pf s of None \<Rightarrow> Inl ValueError | Some r \<Rightarrow> Inr r))"

text \<open>\<open>[float(v) for v in tokens]\<close>: the first token that does not parse raises.\<close>

fun floats_of :: "(string \<Rightarrow> real option) \<Rightarrow> string list \<Rightarrow> error + real list" where
  "floats_of pf [] = Inr []"
| "floats_of pf (t # ts) =
     (case pf t of None \<Rightarrow> Inl ValueError
      | Some r \<Rightarrow> (case floats_of pf ts of Inl e \<Rightarrow> Inl e | Inr rs \<Rightarrow> Inr (r # rs)))"

definition strip_text :: "string option \<Rightarrow> error + string" where
  "strip_text t = (case t of None \<Rightarrow> Inl AttributeError | Some s \<Rightarrow> Inr (strip s))"

text \<open>
  An instance of the \<open>float\<close> parameter for plain decimal literals (an optional sign,
  digits, an optional fraction), used to evaluate examples. On every such literal, and on
  every token with a character that cannot occur in a float literal, it agrees with Python.
\<close>

definition digit_val :: "char \<Rightarrow> nat option" where
  "digit_val c =
     (let n = (of_char c :: nat) in if 48 \<le> n \<and> n \<le> 57 then Some (n - 48) else None)"

fun digits_val :: "string \<Rightarrow> nat \<Rightarrow> nat option" where
  "digits_val [] acc = Some acc"
| "digits_val (c # cs) acc =
     (case digit_val c of None \<Rightarrow> None | Some d \<Rightarrow> digits_val cs (10 * acc + d))"

definition unsigned_decimal :: "string \<Rightarrow> real option" where
  "unsigned_decimal s =
     (let ip = takeWhile (\<lambda>c. c \<noteq> CHR ''.'') s;
          rest = dropWhile (\<lambda>c. c \<noteq> CHR ''.'') s;
          fp = (case rest of [] \<Rightarrow> [] | _ # r \<Rightarrow> r)
      in if ip = [] \<and> fp = [] then None
         else (case (digits_val ip 0, digits_val fp 0) of
                 (Some i, Some f) \<Rightarrow> Some (real i + real f / 10 ^ length fp)
               | _ \<Rightarrow> None))"

definition decimal_float :: "string \<Rightarrow> real option" where
  "decimal_float s =
     (case s of
        [] \<Rightarrow> None
      | c # cs \<Rightarrow>
          if c = CHR ''-'' then map_option uminus (unsigned_decimal cs)
          else if c = CHR ''+'' then unsigned_decimal cs
          else unsigned_decimal s)"

section \<open>utils.py: paths\<close>

text \<open>The functions of \<open>os.path\<close> (POSIX) that the code computes with.\<close>

definition isabs :: "string \<Rightarrow> bool" where
  "isabs p = startswith p ''/''"

definition path_join :: "string \<Rightarrow> string \<Rightarrow> string" where
  "path_join a b =
     (if startswith b ''/'' then b
      else if a = [] \<or> last a = CHR ''/'' then a @ b
      else a @ ''/'' @ b)"

definition basename :: "string \<Rightarrow> string" where
  "basename p = rev (takeWhile (\<lambda>c. c \<noteq> CHR ''/'') (rev p))"

definition dirname :: "string \<Rightarrow> string" where
  "dirname p =
     (let head = rev (dropWhile (\<lambda>c. c \<noteq> CHR ''/'') (rev p))
      in if head \<noteq> [] \<and> \<not> list_all (\<lambda>c. c = CHR ''/'') head
         then rev (dropWhile (\<lambda>c. c = CHR ''/'') (rev head)) else head)"

text \<open>
  \<open>os.path.splitext\<close>: the extension starts at the last dot of the last path component,
  unless only dots precede it there.
\<close>

definition splitext :: "string \<Rightarrow> string \<times> string" where
  "splitext p =
     (let name = basename p;
          ext = rev (takeWhile (\<lambda>c. c \<noteq> CHR ''.'') (rev name));
          stem = take (length name - length ext - 1) name
      in if CHR ''.'' \<in> set name \<and> \<not> list_all (\<lambda>c. c = CHR ''.'') stem
         then (take (length p - length ext - 1) p, CHR ''.'' # ext)
         else (p, []))"

text \<open>\<open>s.split("/", 1)\<close>: at most one split, at the first slash.\<close>

definition split_slash1 :: "string \<Rightarrow> string list" where
  "split_slash1 s =
     (let a = takeWhile (\<lambda>c. c \<noteq> CHR ''/'') s; r = dropWhile (\<lambda>c. c \<noteq> CHR ''/'') s
      in case r of [] \<Rightarrow> [a] | _ # b \<Rightarrow> [a, b])"

definition resolve_model_uri :: "string \<Rightarrow> string \<Rightarrow> string" where
  "resolve_model_uri uri model_dir =
     (if startswith uri ''model://'' then
        (case split_slash1 (drop (length ''model://'') uri) of
           _ # rest # _ \<Rightarrow> path_join model_dir rest
         | _ \<Rightarrow> model_dir)
      else if startswith uri ''file://'' then drop (length ''file://'') uri
      else if isabs uri then uri
      else path_join model_dir uri)"

section \<open>utils.py: poses\<close>

text \<open>
  The dataclass \<open>Pose\<close>; its position fields \<open>x\<close>, \<open>y\<close>, \<open>z\<close> are named \<open>pos_x\<close>, \<open>pos_y\<close>,
  \<open>pos_z\<close> here. A 4x4 array is a list of four rows.
\<close>

record Pose =
  pos_x :: real
  pos_y :: real
  pos_z :: real
  roll :: real
  pitch :: real
  yaw :: real

type_synonym matrix = "real list list"

definition entry :: "matrix \<Rightarrow> nat \<Rightarrow> nat \<Rightarrow> real" where
  "entry m i j = m ! i ! j"

definition identity :: "Pose" where
  "identity = \<lparr>pos_x = 0, pos_y = 0, pos_z = 0, roll = 0, pitch = 0, yaw = 0\<rparr>"

definition position :: "Pose \<Rightarrow> real \<times> real \<times> real" where
  "position p = (pos_x p, pos_y p, pos_z p)"

definition to_matrix :: "Pose \<Rightarrow> matrix" where
  "to_matrix p =
     (let cr = cos (roll p); sr = sin (roll p);
          cp = cos (pitch p); sp = sin (pitch p);
          cy = cos (yaw p); sy = sin (yaw p)
      in [[cy * cp, cy * sp * sr - sy * cr, cy * sp * cr + sy * sr, pos_x p],
          [sy * cp, sy * sp * sr + cy * cr, sy * sp * cr - cy * sr, pos_y p],
          [- sp, cp * sr, cp * cr, pos_z p],
          [0, 0, 0, 1]])"

text \<open>The product \<open>a @ b\<close> of two 4x4 arrays.\<close>

definition matmul :: "matrix \<Rightarrow> matrix \<Rightarrow> matrix" where
  "matmul a b =
     map (\<lambda>i. map (\<lambda>j. sum_list (map (\<lambda>k. entry a i k * entry b k j) [0, 1, 2, 3]))
                 [0, 1, 2, 3])
         [0, 1, 2, 3]"

text \<open>
  \<open>math.atan2\<close> on reals (the reals have no signed zero: at \<open>y = 0\<close>, \<open>x < 0\<close> the value
  is \<open>pi\<close>), and \<open>numpy.clip\<close>.
\<close>

definition atan2 :: "real \<Rightarrow> real \<Rightarrow> real" where
  "atan2 y x =
     (if x > 0 then arctan (y / x)
      else if x < 0 then (if y \<ge> 0 then arctan (y / x) + pi else arctan (y / x) - pi)
      else if y > 0 then pi / 2
      else if y < 0 then - (pi / 2)
      else 0)"

definition clip :: "real \<Rightarrow> real \<Rightarrow> real \<Rightarrow> real" where
  "clip v lo hi = min (max v lo) hi"

definition from_matrix :: "matrix \<Rightarrow> Pose" where
  "from_matrix mat =
     (let x = entry mat 0 3; y = entry mat 1 3; z = entry mat 2 3;
          pitch' = arcsin (- clip (entry mat 2 0) (- 1) 1)
      in if \<bar>cos pitch'\<bar> > 1 / 10 ^ 6
         then \<lparr>pos_x = x, pos_y = y, pos_z = z,
               roll = atan2 (entry mat 2 1) (entry mat 2 2), pitch = pitch',
               yaw = atan2 (entry mat 1 0) (entry mat 0 0)\<rparr>
         else \<lparr>pos_x = x, pos_y = y, pos_z = z,
               roll = atan2 (- entry mat 1 2) (entry mat 1 1), pitch = pitch',
               yaw = 0\<rparr>)"

definition compose :: "Pose \<Rightarrow> Pose \<Rightarrow> Pose" where
  "compose parent child = from_matrix (matmul (to_matrix parent) (to_matrix child))"

text \<open>
  \<open>to_quaternion_wxyz\<close>. In the source \<open>math.sqrt\<close> raises on a negative argument and
  a division raises on a zero divisor; lemma \<open>quaternion_defined\<close> below shows that on
  reals neither happens in any branch.
\<close>

definition quat_parts :: "matrix \<Rightarrow> real \<times> real \<times> real \<times> real" where
  "quat_parts R =
     (let trace = entry R 0 0 + entry R 1 1 + entry R 2 2
      in if trace > 0 then
           (let s = (1 / 2) / sqrt (trace + 1)
            in ((1 / 4) / s, (entry R 2 1 - entry R 1 2) * s,
                (entry R 0 2 - entry R 2 0) * s, (entry R 1 0 - entry R 0 1) * s))
         else if entry R 0 0 > entry R 1 1 \<and> entry R 0 0 > entry R 2 2 then
           (let s = 2 * sqrt (1 + entry R 0 0 - entry R 1 1 - entry R 2 2)
            in ((entry R 2 1 - entry R 1 2) / s, (1 / 4) * s,
                (entry R 0 1 + entry R 1 0) / s, (entry R 0 2 + entry R 2 0) / s))
         else if entry R 1 1 > entry R 2 2 then
           (let s = 2 * sqrt (1 + entry R 1 1 - entry R 0 0 - entry R 2 2)
            in ((entry R 0 2 - entry R 2 0) / s, (entry R 0 1 + entry R 1 0) / s,
                (1 / 4) * s, (entry R 1 2 + entry R 2 1) / s))
         else
           (let s = 2 * sqrt (1 + entry R 2 2 - entry R 0 0 - entry R 1 1)
            in ((entry R 1 0 - entry R 0 1) / s, (entry R 0 2 + entry R 2 0) / s,
                (entry R 1 2 + entry R 2 1) / s, (1 / 4) * s)))"

definition to_quaternion_wxyz :: "Pose \<Rightarrow> real \<times> real \<times> real \<times> real" where
  "to_quaternion_wxyz p =
     (case quat_parts (to_matrix p) of (w, x, y, z) \<Rightarrow>
        let norm = sqrt (w * w + x * x + y * y + z * z)
        in (w / norm, x / norm, y / norm, z / norm))"

text \<open>\<open>math.radians\<close> and \<open>math.degrees\<close>.\<close>

definition radians :: "real \<Rightarrow> real" where
  "radians v = v * (pi / 180)"

definition degrees :: "real \<Rightarrow> real" where
  "degrees v = v * (180 / pi)"

text \<open>
  \<open>parse_pose_string\<close>: every token is converted first (a token that is not a float
  raises ValueError), then the number of values is tested. The result carries the
  warning the function logs.
\<close>

definition parse_pose_string ::
  "(string \<Rightarrow> real option) \<Rightarrow> string \<Rightarrow> bool \<Rightarrow> error + (Pose \<times> log_entry list)" where
  "parse_pose_string pf pose_str degrees_flag =
     bind_err (floats_of pf (split_ws (strip pose_str))) (\<lambda>parts.
       if length parts \<noteq> 6
       then Inr (identity,
                 [Log WARNING (''Invalid pose string (expected 6 values): '' @ pose_str)])
       else (case parts of
               [x, y, z, r, p, w] \<Rightarrow>
                 if degrees_flag
                 then Inr (\<lparr>pos_x = x, pos_y = y, pos_z = z,
                            roll = radians r, pitch = radians p, yaw = radians w\<rparr>, [])
                 else Inr (\<lparr>pos_x = x, pos_y = y, pos_z = z,
                            roll = r, pitch = p, yaw = w\<rparr>, [])
             | _ \<Rightarrow> Inr (identity, [])))"

section \<open>parser.py: the intermediate model\<close>

text \<open>
  The dataclasses of the parser. Field names that several dataclasses share (\<open>name\<close>,
  \<open>pose\<close>, \<open>geometry\<close>, \<open>radius\<close>, \<open>length\<close>, \<open>scale\<close>, \<open>size\<close>) carry a prefix here.
  An \<open>Optional\<close> field is an \<open>option\<close>; an instance of a dataclass is always truthy in
  Python, so \<open>if v.geometry:\<close> tests \<open>geometry \<noteq> None\<close>.
\<close>

type_synonym vec3 = "real \<times> real \<times> real"

record SdfInertia =
  ixx :: real
  ixy :: real
  ixz :: real
  iyy :: real
  iyz :: real
  izz :: real

record SdfInertial =
  mass :: real
  inertial_pose :: Pose
  inertia :: SdfInertia

record SdfMeshGeometry =
  uri :: string
  resolved_path :: string
  mesh_scale :: vec3

record SdfBoxGeometry =
  box_size :: vec3

record SdfCylinderGeometry =
  cyl_radius :: real
  cyl_length :: real

record SdfSphereGeometry =
  sph_radius :: real

record SdfCapsuleGeometry =
  cap_radius :: real
  cap_length :: real

record SdfGeometry =
  mesh :: "SdfMeshGeometry option"
  box :: "SdfBoxGeometry option"
  cylinder :: "SdfCylinderGeometry option"
  sphere :: "SdfSphereGeometry option"
  capsule :: "SdfCapsuleGeometry option"

record SdfPbrMaterial =
  metalness :: real
  roughness :: real
  albedo_map :: string
  albedo_map_resolved :: string

record SdfMaterial =
  diffuse :: vec3
  specular :: vec3
  pbr :: "SdfPbrMaterial option"

record SdfVisual =
  vis_name :: string
  vis_pose :: Pose
  vis_geometry :: "SdfGeometry option"
  vis_material :: "SdfMaterial option"

record SdfCollision =
  col_name :: string
  col_pose :: Pose
  col_geometry :: "SdfGeometry option"

record SdfJointAxis =
  xyz :: vec3
  lower_limit :: real
  upper_limit :: real
  damping :: real
  stiffness :: real
  friction :: real

record SdfJoint =
  joint_name :: string
  joint_type :: string
  parent :: string
  child :: string
  joint_pose :: Pose
  axis :: SdfJointAxis

record SdfLink =
  link_name :: string
  link_pose :: Pose
  inertial :: "SdfInertial option"
  visuals :: "SdfVisual list"
  collisions :: "SdfCollision list"

record SdfModel =
  model_name :: string
  model_pose :: Pose
  links :: "SdfLink list"
  joints :: "SdfJoint list"

definition empty_geometry :: SdfGeometry where
  "empty_geometry = \<lparr>mesh = None, box = None, cylinder = None, sphere = None, capsule = None\<rparr>"

definition default_inertia :: SdfInertia where
  "default_inertia = \<lparr>ixx = 0, ixy = 0, ixz = 0, iyy = 0, iyz = 0, izz = 0\<rparr>"

definition default_axis :: SdfJointAxis where
  "default_axis = \<lparr>xyz = (0, 0, 1), lower_limit = - (10 ^ 16), upper_limit = 10 ^ 16,
                    damping = 0, stiffness = 0, friction = 0\<rparr>"

text \<open>The property \<open>SdfGeometry.type_name\<close>.\<close>

definition type_name :: "SdfGeometry \<Rightarrow> string" where
  "type_name g =
     (if mesh g \<noteq> None then ''mesh''
      else if box g \<noteq> None then ''box''
      else if cylinder g \<noteq> None then ''cylinder''
      else if sphere g \<noteq> None then ''sphere''
      else if capsule g \<noteq> None then ''capsule''
      else ''unknown'')"

text \<open>The number of populated variants of a geometry.\<close>

definition populated :: "SdfGeometry \<Rightarrow> nat" where
  "populated g =
     (if mesh g \<noteq> None then 1 else 0) + (if box g \<noteq> None then 1 else 0)
     + (if cylinder g \<noteq> None then 1 else 0) + (if sphere g \<noteq> None then 1 else 0)
     + (if capsule g \<noteq> None then 1 else 0)"

definition get_link :: "SdfModel \<Rightarrow> string \<Rightarrow> SdfLink option" where
  "get_link m n = find (\<lambda>l. link_name l = n) (links m)"

section \<open>parser.py: the loader\<close>

text \<open>
  An element of the source document, as \<open>xml.etree.ElementTree\<close> presents it: tag,
  attributes, text (\<open>None\<close> for an element without text) and children in document order.
  \<open>find_child\<close> is \<open>elem.find(tag)\<close>, \<open>findall\<close> is \<open>elem.findall(tag)\<close> and \<open>get_attr\<close>
  is \<open>elem.get(key, default)\<close>. Reading the file into this tree is outside the model.
\<close>

datatype elem = Elem (tag: string) (attrib: "(string \<times> string) list")
  (text_of: "string option") (children: "elem list")

definition find_child :: "elem \<Rightarrow> string \<Rightarrow> elem option" where
  "find_child e t = find (\<lambda>c. tag c = t) (children e)"

definition findall :: "elem \<Rightarrow> string \<Rightarrow> elem list" where
  "findall e t = filter (\<lambda>c. tag c = t) (children e)"

definition get_attr :: "elem \<Rightarrow> string \<Rightarrow> string \<Rightarrow> string" where
  "get_attr e k d = (case map_of (attrib e) k of None \<Rightarrow> d | Some v \<Rightarrow> v)"

text \<open>
  The recurring pattern \<open>c = elem.find(t); if c is not None: field = f(c)\<close>, the field
  keeping its default \<open>d\<close> otherwise.
\<close>

definition with_child :: "elem \<Rightarrow> string \<Rightarrow> 'a \<Rightarrow> (elem \<Rightarrow> error + 'a) \<Rightarrow> error + 'a" where
  "with_child e t d f = (case find_child e t of None \<Rightarrow> Inr d | Some c \<Rightarrow> f c)"

text \<open>
  \<open>parts = [float(v) for v in c.text.strip().split()]\<close> followed by
  \<open>tuple(parts[:3]) if len(parts) >= 3 else d\<close>.
\<close>

definition parse_vec3 :: "(string \<Rightarrow> real option) \<Rightarrow> vec3 \<Rightarrow> elem \<Rightarrow> error + vec3" where
  "parse_vec3 pf d c =
     bind_err (strip_text (text_of c)) (\<lambda>s.
     bind_err (floats_of pf (split_ws s)) (\<lambda>parts.
       (case parts of a # b # c # _ \<Rightarrow> Inr (a, b, c) | _ \<Rightarrow> Inr d)))"

definition parse_float :: "(string \<Rightarrow> real option) \<Rightarrow> elem \<Rightarrow> error + real" where
  "parse_float pf c = float_text pf (text_of c)"

definition parse_pose :: "(string \<Rightarrow> real option) \<Rightarrow> elem \<Rightarrow> error + Pose" where
  "parse_pose pf e =
     (case text_of e of
        None \<Rightarrow> Inr identity
      | Some t \<Rightarrow>
          bind_err (parse_pose_string pf t (lower (get_attr e ''degrees'' ''false'') = ''true''))
            (\<lambda>r. Inr (fst r)))"

definition parse_inertia :: "(string \<Rightarrow> real option) \<Rightarrow> elem \<Rightarrow> error + SdfInertia" where
  "parse_inertia pf e =
     bind_err (with_child e ''ixx'' 0 (parse_float pf)) (\<lambda>a.
     bind_err (with_child e ''ixy'' 0 (parse_float pf)) (\<lambda>b.
     bind_err (with_child e ''ixz'' 0 (parse_float pf)) (\<lambda>c.
     bind_err (with_child e ''iyy'' 0 (parse_float pf)) (\<lambda>d.
     bind_err (with_child e ''iyz'' 0 (parse_float pf)) (\<lambda>f.
     bind_err (with_child e ''izz'' 0 (parse_float pf)) (\<lambda>g.
       Inr \<lparr>ixx = a, ixy = b, ixz = c, iyy = d, iyz = f, izz = g\<rparr>))))))"

definition parse_inertial :: "(string \<Rightarrow> real option) \<Rightarrow> elem \<Rightarrow> error + SdfInertial" where
  "parse_inertial pf e =
     bind_err (with_child e ''mass'' 0 (parse_float pf)) (\<lambda>m.
     bind_err (with_child e ''pose'' identity (parse_pose pf)) (\<lambda>p.
     bind_err (with_child e ''inertia'' default_inertia (parse_inertia pf)) (\<lambda>i.
       Inr \<lparr>mass = m, inertial_pose = p, inertia = i\<rparr>)))"

text \<open>
  \<open>_parse_geometry\<close>: the first shape element found, in the order mesh, box, cylinder,
  sphere, capsule, fills its field and the function returns; with none of the five the
  geometry is returned with no field set.
\<close>

definition parse_mesh ::
  "(string \<Rightarrow> real option) \<Rightarrow> string \<Rightarrow> elem \<Rightarrow> error + SdfMeshGeometry" where
  "parse_mesh pf model_dir mesh_elem =
     bind_err (case find_child mesh_elem ''uri'' of
                 None \<Rightarrow> Inr ([], [])
               | Some uri_elem \<Rightarrow>
                   bind_err (strip_text (text_of uri_elem))
                     (\<lambda>u. Inr (u, resolve_model_uri u model_dir))) (\<lambda>ur.
     bind_err (with_child mesh_elem ''scale'' (1, 1, 1) (parse_vec3 pf (1, 1, 1))) (\<lambda>sc.
       Inr \<lparr>uri = fst ur, resolved_path = snd ur, mesh_scale = sc\<rparr>))"

definition parse_geometry ::
  "(string \<Rightarrow> real option) \<Rightarrow> string \<Rightarrow> elem \<Rightarrow> error + SdfGeometry" where
  "parse_geometry pf model_dir e =
     (case find_child e ''mesh'' of
        Some mesh_elem \<Rightarrow>
          bind_err (parse_mesh pf model_dir mesh_elem)
            (\<lambda>m. Inr (empty_geometry\<lparr>mesh := Some m\<rparr>))
      | None \<Rightarrow>
     (case find_child e ''box'' of
        Some box_elem \<Rightarrow>
          bind_err (with_child box_elem ''size'' (1, 1, 1) (parse_vec3 pf (1, 1, 1)))
            (\<lambda>s. Inr (empty_geometry\<lparr>box := Some \<lparr>box_size = s\<rparr>\<rparr>))
      | None \<Rightarrow>
     (case find_child e ''cylinder'' of
        Some cyl_elem \<Rightarrow>
          bind_err (with_child cyl_elem ''radius'' (1 / 2) (parse_float pf)) (\<lambda>r.
          bind_err (with_child cyl_elem ''length'' 1 (parse_float pf)) (\<lambda>l.
            Inr (empty_geometry\<lparr>cylinder := Some \<lparr>cyl_radius = r, cyl_length = l\<rparr>\<rparr>)))
      | None \<Rightarrow>
     (case find_child e ''sphere'' of
        Some sphere_elem \<Rightarrow>
          bind_err (with_child sphere_elem ''radius'' (1 / 2) (parse_float pf)) (\<lambda>r.
            Inr (empty_geometry\<lparr>sphere := Some \<lparr>sph_radius = r\<rparr>\<rparr>))
      | None \<Rightarrow>
     (case find_child e ''capsule'' of
        Some capsule_elem \<Rightarrow>
          bind_err (with_child capsule_elem ''radius'' (1 / 2) (parse_float pf)) (\<lambda>r.
          bind_err (with_child capsule_elem ''length'' 1 (parse_float pf)) (\<lambda>l.
            Inr (empty_geometry\<lparr>capsule := Some \<lparr>cap_radius = r, cap_length = l\<rparr>\<rparr>)))
      | None \<Rightarrow> Inr empty_geometry)))))"

definition parse_pbr ::
  "(string \<Rightarrow> real option) \<Rightarrow> string \<Rightarrow> elem \<Rightarrow> error + SdfPbrMaterial option" where
  "parse_pbr pf model_dir pbr_elem =
     (case find_child pbr_elem ''metal'' of
        None \<Rightarrow> Inr None
      | Some metal_elem \<Rightarrow>
          bind_err (with_child metal_elem ''metalness'' 0 (parse_float pf)) (\<lambda>m.
          bind_err (with_child metal_elem ''roughness'' (1 / 2) (parse_float pf)) (\<lambda>r.
          bind_err (case find_child metal_elem ''albedo_map'' of
                      None \<Rightarrow> Inr ([], [])
                    | Some a \<Rightarrow>
                        bind_err (strip_text (text_of a))
                          (\<lambda>u. Inr (u, resolve_model_uri u model_dir))) (\<lambda>ar.
            Inr (Some \<lparr>metalness = m, roughness = r, albedo_map = fst ar,
                       albedo_map_resolved = snd ar\<rparr>)))))"

definition parse_material ::
  "(string \<Rightarrow> real option) \<Rightarrow> string \<Rightarrow> elem \<Rightarrow> error + SdfMaterial" where
  "parse_material pf model_dir e =
     bind_err (with_child e ''diffuse'' (8 / 10, 8 / 10, 8 / 10)
                 (parse_vec3 pf (8 / 10, 8 / 10, 8 / 10))) (\<lambda>d.
     bind_err (with_child e ''specular'' (1 / 10, 1 / 10, 1 / 10)
                 (parse_vec3 pf (1 / 10, 1 / 10, 1 / 10))) (\<lambda>s.
     bind_err (with_child e ''pbr'' None (parse_pbr pf model_dir)) (\<lambda>p.
       Inr \<lparr>diffuse = d, specular = s, pbr = p\<rparr>)))"

definition parse_visual ::
  "(string \<Rightarrow> real option) \<Rightarrow> string \<Rightarrow> elem \<Rightarrow> error + SdfVisual" where
  "parse_visual pf model_dir e =
     bind_err (with_child e ''pose'' identity (parse_pose pf)) (\<lambda>p.
     bind_err (with_child e ''geometry'' None
                 (\<lambda>g. bind_err (parse_geometry pf model_dir g) (\<lambda>r. Inr (Some r)))) (\<lambda>g.
     bind_err (with_child e ''material'' None
                 (\<lambda>m. bind_err (parse_material pf model_dir m) (\<lambda>r. Inr (Some r)))) (\<lambda>m.
       Inr \<lparr>vis_name = get_attr e ''name'' ''visual'', vis_pose = p,
            vis_geometry = g, vis_material = m\<rparr>)))"

definition parse_collision ::
  "(string \<Rightarrow> real option) \<Rightarrow> string \<Rightarrow> elem \<Rightarrow> error + SdfCollision" where
  "parse_collision pf model_dir e =
     bind_err (with_child e ''pose'' identity (parse_pose pf)) (\<lambda>p.
     bind_err (with_child e ''geometry'' None
                 (\<lambda>g. bind_err (parse_geometry pf model_dir g) (\<lambda>r. Inr (Some r)))) (\<lambda>g.
       Inr \<lparr>col_name = get_attr e ''name'' ''collision'', col_pose = p, col_geometry = g\<rparr>))"

definition parse_joint_axis :: "(string \<Rightarrow> real option) \<Rightarrow> elem \<Rightarrow> error + SdfJointAxis" where
  "parse_joint_axis pf e =
     bind_err (with_child e ''xyz'' (0, 0, 1) (parse_vec3 pf (0, 0, 1))) (\<lambda>v.
     bind_err (case find_child e ''limit'' of
                 None \<Rightarrow> Inr (- (10 ^ 16), 10 ^ 16)
               | Some limit_elem \<Rightarrow>
                   bind_err (with_child limit_elem ''lower'' (- (10 ^ 16)) (parse_float pf)) (\<lambda>lo.
                   bind_err (with_child limit_elem ''upper'' (10 ^ 16) (parse_float pf)) (\<lambda>up.
                     Inr (lo, up)))) (\<lambda>lim.
     bind_err (case find_child e ''dynamics'' of
                 None \<Rightarrow> Inr (0, 0, 0)
               | Some dynamics_elem \<Rightarrow>
                   bind_err (with_child dynamics_elem ''damping'' 0 (parse_float pf)) (\<lambda>d.
                   bind_err (with_child dynamics_elem ''stiffness'' 0 (parse_float pf)) (\<lambda>s.
                   bind_err (with_child dynamics_elem ''friction'' 0 (parse_float pf)) (\<lambda>f.
                     Inr (d, s, f))))) (\<lambda>dyn.
       Inr \<lparr>xyz = v, lower_limit = fst lim, upper_limit = snd lim,
            damping = fst dyn, stiffness = fst (snd dyn), friction = snd (snd dyn)\<rparr>)))"

definition parse_joint :: "(string \<Rightarrow> real option) \<Rightarrow> elem \<Rightarrow> error + SdfJoint" where
  "parse_joint pf e =
     bind_err (with_child e ''pose'' identity (parse_pose pf)) (\<lambda>p.
     bind_err (with_child e ''parent'' [] (\<lambda>c. strip_text (text_of c))) (\<lambda>pa.
     bind_err (with_child e ''child'' [] (\<lambda>c. strip_text (text_of c))) (\<lambda>ch.
     bind_err (with_child e ''axis'' default_axis (parse_joint_axis pf)) (\<lambda>a.
       Inr \<lparr>joint_name = get_attr e ''name'' ''joint'',
            joint_type = get_attr e ''type'' ''revolute'',
            parent = pa, child = ch, joint_pose = p, axis = a\<rparr>))))"

text \<open>
  The two loops of \<open>_parse_link\<close>: each element is parsed, and the item is appended when
  its geometry is not \<open>None\<close>.
\<close>

fun parse_visuals ::
  "(string \<Rightarrow> real option) \<Rightarrow> string \<Rightarrow> elem list \<Rightarrow> error + SdfVisual list" where
  "parse_visuals pf model_dir [] = Inr []"
| "parse_visuals pf model_dir (e # es) =
     bind_err (parse_visual pf model_dir e) (\<lambda>v.
     bind_err (parse_visuals pf model_dir es) (\<lambda>vs.
       Inr (if vis_geometry v \<noteq> None then v # vs else vs)))"

fun parse_collisions ::
  "(string \<Rightarrow> real option) \<Rightarrow> string \<Rightarrow> elem list \<Rightarrow> error + SdfCollision list" where
  "parse_collisions pf model_dir [] = Inr []"
| "parse_collisions pf model_dir (e # es) =
     bind_err (parse_collision pf model_dir e) (\<lambda>c.
     bind_err (parse_collisions pf model_dir es) (\<lambda>cs.
       Inr (if col_geometry c \<noteq> None then c # cs else cs)))"

definition parse_link :: "(string \<Rightarrow> real option) \<Rightarrow> string \<Rightarrow> elem \<Rightarrow> error + SdfLink" where
  "parse_link pf model_dir e =
     bind_err (with_child e ''pose'' identity (parse_pose pf)) (\<lambda>p.
     bind_err (with_child e ''inertial'' None
                 (\<lambda>i. bind_err (parse_inertial pf i) (\<lambda>r. Inr (Some r)))) (\<lambda>i.
     bind_err (parse_visuals pf model_dir (findall e ''visual'')) (\<lambda>vs.
     bind_err (parse_collisions pf model_dir (findall e ''collision'')) (\<lambda>cs.
       Inr \<lparr>link_name = get_attr e ''name'' ''link'', link_pose = p, inertial = i,
            visuals = vs, collisions = cs\<rparr>))))"

fun parse_links ::
  "(string \<Rightarrow> real option) \<Rightarrow> string \<Rightarrow> elem list \<Rightarrow> error + SdfLink list" where
  "parse_links pf model_dir [] = Inr []"
| "parse_links pf model_dir (e # es) =
     bind_err (parse_link pf model_dir e) (\<lambda>l.
     bind_err (parse_links pf model_dir es) (\<lambda>ls. Inr (l # ls)))"

fun parse_joints :: "(string \<Rightarrow> real option) \<Rightarrow> elem list \<Rightarrow> error + SdfJoint list" where
  "parse_joints pf [] = Inr []"
| "parse_joints pf (e # es) =
     bind_err (parse_joint pf e) (\<lambda>j.
     bind_err (parse_joints pf es) (\<lambda>js. Inr (j # js)))"

definition parse_model :: "(string \<Rightarrow> real option) \<Rightarrow> string \<Rightarrow> elem \<Rightarrow> error + SdfModel" where
  "parse_model pf model_dir e =
     bind_err (with_child e ''pose'' identity (parse_pose pf)) (\<lambda>p.
     bind_err (parse_links pf model_dir (findall e ''link'')) (\<lambda>ls.
     bind_err (parse_joints pf (findall e ''joint'')) (\<lambda>js.
       Inr \<lparr>model_name = get_attr e ''name'' ''model'', model_pose = p,
            links = ls, joints = js\<rparr>)))"

text \<open>
  \<open>SdfParser.parse\<close> on the root element of the document: the model element is the
  first \<open>model\<close> child of the root, or the root itself when its tag is \<open>model\<close>.
\<close>

definition parse :: "(string \<Rightarrow> real option) \<Rightarrow> string \<Rightarrow> elem \<Rightarrow> error + SdfModel" where
  "parse pf model_dir root_elem =
     (case find_child root_elem ''model'' of
        Some model_elem \<Rightarrow> parse_model pf model_dir model_elem
      | None \<Rightarrow>
          if tag root_elem = ''model'' then parse_model pf model_dir root_elem
          else Inl ValueError)"

text \<open>
  The shape the specification's priority order selects for a geometry element: the first
  of mesh, box, cylinder, sphere, capsule that is present, \<open>unknown\<close> when none is.
\<close>

definition first_shape :: "elem \<Rightarrow> string" where
  "first_shape e =
     (if find_child e ''mesh'' \<noteq> None then ''mesh''
      else if find_child e ''box'' \<noteq> None then ''box''
      else if find_child e ''cylinder'' \<noteq> None then ''cylinder''
      else if find_child e ''sphere'' \<noteq> None then ''sphere''
      else if find_child e ''capsule'' \<noteq> None then ''capsule''
      else ''unknown'')"

section \<open>utils.py: naming sanitizer\<close>

text \<open>
  \<open>sanitize_usd_name\<close>: the three replacements, then the digit test on the first character of
  the replaced string, then the filter that keeps alphanumerics and the underscore, then the
  fallback for an empty result. The steps are in the order of the source.
\<close>

definition sanitize_usd_name :: "string \<Rightarrow> string" where
  "sanitize_usd_name name =
     (let result = replace_char CHR '' '' CHR ''_''
                     (replace_char CHR ''.'' CHR ''_'' (replace_char CHR ''-'' CHR ''_'' name));
          result = (case result of [] \<Rightarrow> result
                    | c # _ \<Rightarrow> if isdigit c then CHR ''_'' # result else result);
          result = filter (\<lambda>c. isalnum c \<or> c = CHR ''_'') result
      in if result = [] then ''_unnamed'' else result)"

text \<open>
  The sanitizer as the specification words it: replace, drop the characters that are
  not alphanumeric or the underscore, then prefix an underscore if the result starts with
  a digit, then map the empty result to \<open>_unnamed\<close>.
\<close>

definition sanitize_spec :: "string \<Rightarrow> string" where
  "sanitize_spec name =
     (let replaced = replace_char CHR '' '' CHR ''_''
                       (replace_char CHR ''.'' CHR ''_'' (replace_char CHR ''-'' CHR ''_'' name));
          kept = filter (\<lambda>c. isalnum c \<or> c = CHR ''_'') replaced;
          prefixed = (case kept of [] \<Rightarrow> kept
                      | c # _ \<Rightarrow> if isdigit c then CHR ''_'' # kept else kept)
      in if prefixed = [] then ''_unnamed'' else prefixed)"

section \<open>physics.py: axis snapping\<close>

definition determine_axis :: "real \<times> real \<times> real \<Rightarrow> string" where
  "determine_axis v =
     (case v of (x, y, z) \<Rightarrow>
        let ax = \<bar>x\<bar>; ay = \<bar>y\<bar>; az = \<bar>z\<bar>
        in if ax \<ge> ay \<and> ax \<ge> az then ''X''
           else if ay \<ge> ax \<and> ay \<ge> az then ''Y''
           else ''Z'')"

section \<open>The environment of a run, and its trace\<close>

text \<open>
  What the code reads from outside is a parameter of the model: the file system
  (\<open>os.path.exists\<close>, \<open>os.path.abspath\<close>, \<open>os.path.relpath\<close>; it is taken not to change
  during a run), whether copying the textures next to a mesh succeeds, whether the
  external asset converter succeeds on its \<open>n\<close>-th invocation for a source and a
  destination, and \<open>repr\<close> of a float.
\<close>

record env =
  path_exists :: "string \<Rightarrow> bool"
  abspath :: "string \<Rightarrow> string"
  relpath :: "string \<Rightarrow> string \<Rightarrow> string"
  copy_adjacent_ok :: "string \<Rightarrow> bool"
  conversion_ok :: "nat \<Rightarrow> string \<Rightarrow> string \<Rightarrow> bool"
  repr_float :: "real \<Rightarrow> string"

type_synonym quat = "real \<times> real \<times> real \<times> real"

text \<open>The shader a material is created with, and a joint prim with its attributes.\<close>

record shader =
  diffuse_color :: vec3
  metallic :: real
  shader_roughness :: real
  diffuse_texture :: "string option"
  ior :: "real option"

record usd_joint =
  jt_kind :: string
  jt_path :: string
  jt_body0 :: string
  jt_body1 :: string
  jt_axis :: "string option"
  jt_local_pos0 :: vec3
  jt_local_rot0 :: quat
  jt_lower_limit :: "real option"
  jt_upper_limit :: "real option"
  jt_drive :: "(string \<times> real \<times> real option) option"

text \<open>
  What the code does to the outside is recorded as a trace, in the order of the calls:
  the calls of the scene-writing API (they are taken to succeed), the invocations of the
  external asset converter with their outcome, file copies, and the warnings and errors
  logged.
\<close>

datatype event =
    CreateStage string string
  | SetDefaultPrim string
  | DefineXform string
  | SetXform string vec3 quat "vec3 option"
  | DefineScope string
  | ApplyArticulationRoot string
  | ApplyRigidBody string
  | ApplyMass string real vec3 vec3
  | ApplyCollision string
  | AddReference string string
  | DefineCube string real vec3
  | DefineCylinder string real real string
  | DefineSphere string real
  | DefineCapsule string real real string
  | DefineMaterial string shader
  | BindMaterial string string
  | DefineJoint usd_joint
  | CopyAdjacentTextures string bool
  | RunConversion string string bool
  | CopyFile string string
  | Logged level string
  | Save

text \<open>
  The mutable state of a run: the cache of the mesh converter (a dict, as an association
  list), the cache and the counter of the material builder, and the trace.
\<close>

record run_state =
  mc_cache :: "(string \<times> string) list"
  material_cache :: "(string \<times> string) list"
  counter :: nat
  trace :: "event list"

definition init_state :: run_state where
  "init_state = \<lparr>mc_cache = [], material_cache = [], counter = 0, trace = []\<rparr>"

definition emit :: "event list \<Rightarrow> run_state \<Rightarrow> run_state" where
  "emit es st = st\<lparr>trace := trace st @ es\<rparr>"

fun is_run :: "event \<Rightarrow> bool" where
  "is_run (RunConversion _ _ _) = True"
| "is_run _ = False"

text \<open>The invocations of the external converter in a trace, and those for one source.\<close>

definition invocations :: "event list \<Rightarrow> nat" where
  "invocations tr = length (filter is_run tr)"

fun is_run_of :: "string \<Rightarrow> event \<Rightarrow> bool" where
  "is_run_of src (RunConversion s _ _) = (s = src)"
| "is_run_of src _ = False"

definition invocations_of :: "string \<Rightarrow> event list \<Rightarrow> nat" where
  "invocations_of src tr = length (filter (is_run_of src) tr)"

section \<open>mesh_converter.py\<close>

definition SUPPORTED_MESH_FORMATS :: "string list" where
  "SUPPORTED_MESH_FORMATS = [''.dae'', ''.stl'', ''.obj'', ''.fbx'', ''.gltf'', ''.glb'']"

text \<open>The converter's \<open>output_dir\<close>, as its constructor sets it.\<close>

definition mesh_output_dir :: "string \<Rightarrow> string" where
  "mesh_output_dir output_dir = path_join output_dir ''meshes''"

text \<open>
  The loop that handles name collisions: while the candidate is among the cached
  artifacts, the next candidate carries the counter. It terminates because the
  candidates are pairwise distinct and the cache is finite.
\<close>

definition usd_candidate :: "string \<Rightarrow> string \<Rightarrow> nat \<Rightarrow> string" where
  "usd_candidate out_dir base_name n =
     path_join out_dir (base_name @ ''_'' @ str_nat n @ ''.usd'')"

lemma str_nat_nonempty: "str_nat n \<noteq> []"
  by (subst str_nat.simps) simp

lemma digit_char_inj: "a < 10 \<Longrightarrow> b < 10 \<Longrightarrow> digit_char a = digit_char b \<Longrightarrow> a = b"
  by (simp add: digit_char_def char_of_eq_iff take_bit_eq_mod)

lemma str_nat_inj: "str_nat n = str_nat m \<Longrightarrow> n = m"
proof (induction n arbitrary: m rule: str_nat.induct)
  case (1 n)
  show ?case
  proof (cases "n < 10")
    case small_n: True
    show ?thesis
    proof (cases "m < 10")
      case True
      with small_n "1.prems" show ?thesis
        by (simp add: str_nat.simps [of n] str_nat.simps [of m] digit_char_inj)
    next
      case False
      with small_n "1.prems" str_nat_nonempty [of "m div 10"] show ?thesis
        by (simp add: str_nat.simps [of n] str_nat.simps [of m] Cons_eq_append_conv)
    qed
  next
    case big_n: False
    show ?thesis
    proof (cases "m < 10")
      case True
      with big_n "1.prems" str_nat_nonempty [of "n div 10"] show ?thesis
        by (simp add: str_nat.simps [of n] str_nat.simps [of m] append_eq_Cons_conv)
    next
      case False
      with big_n "1.prems" have eq: "str_nat (n div 10) = str_nat (m div 10)"
        and d: "digit_char (n mod 10) = digit_char (m mod 10)"
        by (simp_all add: str_nat.simps [of n] str_nat.simps [of m])
      from "1.IH" [OF big_n eq] have "n div 10 = m div 10" .
      moreover from d have "n mod 10 = m mod 10"
        by (intro digit_char_inj) simp_all
      ultimately show ?thesis
        by (metis div_mult_mod_eq)
    qed
  qed
qed

lemma path_join_suffix:
  "\<exists>pre. \<forall>s. path_join out_dir (base_name @ CHR ''_'' # s) = pre @ CHR ''_'' # s"
proof (cases base_name)
  case Nil
  then show ?thesis
    by (cases "out_dir = [] \<or> last out_dir = CHR ''/''")
       (auto simp: path_join_def startswith_def
             intro: exI [of _ "out_dir"] exI [of _ "out_dir @ ''/''"])
next
  case (Cons c cs)
  show ?thesis
  proof (cases "c = CHR ''/''")
    case True
    with Cons show ?thesis
      by (auto simp: path_join_def startswith_def intro: exI [of _ "base_name"])
  next
    case False
    with Cons show ?thesis
      by (cases "out_dir = [] \<or> last out_dir = CHR ''/''")
         (auto simp: path_join_def startswith_def
               intro: exI [of _ "out_dir @ base_name"] exI [of _ "out_dir @ ''/'' @ base_name"])
  qed
qed

lemma usd_candidate_inj:
  assumes "usd_candidate out_dir base_name k = usd_candidate out_dir base_name k'"
  shows "k = k'"
proof -
  obtain pre where p: "\<And>s. path_join out_dir (base_name @ CHR ''_'' # s) = pre @ CHR ''_'' # s"
    using path_join_suffix by blast
  from assms have "str_nat k @ ''.usd'' = str_nat k' @ ''.usd''"
    by (simp add: usd_candidate_def p)
  then show ?thesis by (simp add: str_nat_inj)
qed

lemma finite_candidates: "finite {k. usd_candidate out_dir base_name k \<in> set vals}"
proof -
  have "inj (usd_candidate out_dir base_name)"
    by (rule injI) (rule usd_candidate_inj)
  then have "finite (usd_candidate out_dir base_name -` set vals)"
    by (intro finite_vimageI) simp_all
  then show ?thesis by (simp add: vimage_def)
qed

function unique_usd_path ::
  "string \<Rightarrow> string \<Rightarrow> string list \<Rightarrow> string \<Rightarrow> nat \<Rightarrow> string" where
  "unique_usd_path out_dir base_name vals usd_path n =
     (if usd_path \<in> set vals
      then unique_usd_path out_dir base_name vals (usd_candidate out_dir base_name n) (n + 1)
      else usd_path)"
  by pat_completeness auto
termination
proof (relation "measure (\<lambda>(out_dir, base_name, vals, usd_path, n).
         2 * card {k. n \<le> k \<and> usd_candidate out_dir base_name k \<in> set vals}
         + (if usd_path \<in> set vals then 1 else 0))", goal_cases)
  case 1
  show ?case by simp
next
  case (2 out_dir base_name vals usd_path n)
  let ?A = "{k. n \<le> k \<and> usd_candidate out_dir base_name k \<in> set vals}"
  let ?B = "{k. n + 1 \<le> k \<and> usd_candidate out_dir base_name k \<in> set vals}"
  have fin: "finite ?A"
    by (rule finite_subset [OF _ finite_candidates [of out_dir base_name vals]]) auto
  show ?case
  proof (cases "usd_candidate out_dir base_name n \<in> set vals")
    case True
    then have "n \<in> ?A" and "n \<notin> ?B" and "?B \<subseteq> ?A" by auto
    then have "?B \<subset> ?A" by blast
    with fin have "card ?B < card ?A" by (rule psubset_card_mono)
    with 2 True show ?thesis by simp
  next
    case False
    then have "?B = ?A"
      by (auto simp: Suc_le_eq intro: le_neq_implies_less)
    with 2 False show ?thesis by simp
  qed
qed

declare unique_usd_path.simps [simp del]

text \<open>
  \<open>MeshConverter.convert\<close>. The result is the artifact path or the exception; the state
  returned holds every effect up to there. A failure leaves the cache as it was.
\<close>

definition mc_convert ::
  "env \<Rightarrow> string \<Rightarrow> run_state \<Rightarrow> string \<Rightarrow> (error + string) \<times> run_state" where
  "mc_convert ev mesh_dir st source_path0 =
     (let source_path = abspath ev source_path0
      in if \<not> path_exists ev source_path then (Inl FileNotFoundError, st)
         else (case map_of (mc_cache st) source_path of
                 Some usd_path \<Rightarrow> (Inr usd_path, st)
               | None \<Rightarrow>
                   let ext = lower (snd (splitext source_path))
                   in if ext \<notin> set SUPPORTED_MESH_FORMATS then (Inl RuntimeError, st)
                      else
                        let base_name = fst (splitext (basename source_path));
                            usd_path = unique_usd_path mesh_dir base_name (map snd (mc_cache st))
                                         (path_join mesh_dir (base_name @ ''.usd'')) 1;
                            copied = copy_adjacent_ok ev source_path;
                            st1 = emit [CopyAdjacentTextures source_path copied] st
                        in if \<not> copied then (Inl OSError, st1)
                           else
                             let ok = conversion_ok ev (invocations (trace st1)) source_path usd_path;
                                 st2 = emit [RunConversion source_path usd_path ok] st1
                             in if \<not> ok then (Inl RuntimeError, st2)
                                else (Inr usd_path,
                                      st2\<lparr>mc_cache :=
                                            AList.update source_path usd_path (mc_cache st2)\<rparr>)))"

definition copy_texture :: "env \<Rightarrow> string \<Rightarrow> run_state \<Rightarrow> string \<Rightarrow> string \<times> run_state" where
  "copy_texture ev mesh_dir st source_path =
     (if \<not> path_exists ev source_path
      then (source_path, emit [Logged WARNING (''Texture not found: '' @ source_path)] st)
      else
        let dest = path_join mesh_dir (basename source_path)
        in (dest, if \<not> path_exists ev dest then emit [CopyFile source_path dest] st else st))"

section \<open>materials.py\<close>

text \<open>\<open>"|".join(parts)\<close> and the \<open>str\<close> of a tuple of three floats.\<close>

fun join_with :: "string \<Rightarrow> string list \<Rightarrow> string" where
  "join_with sep [] = []"
| "join_with sep [p] = p"
| "join_with sep (p # q # ps) = p @ sep @ join_with sep (q # ps)"

definition tuple_repr :: "env \<Rightarrow> vec3 \<Rightarrow> string" where
  "tuple_repr ev v =
     (case v of (a, b, c) \<Rightarrow>
        ''('' @ repr_float ev a @ '', '' @ repr_float ev b @ '', '' @ repr_float ev c @ '')'')"

definition material_hash :: "env \<Rightarrow> SdfMaterial \<Rightarrow> string" where
  "material_hash ev mat =
     join_with ''|''
       ([''d='' @ tuple_repr ev (diffuse mat), ''s='' @ tuple_repr ev (specular mat)]
        @ (case pbr mat of
             None \<Rightarrow> []
           | Some pb \<Rightarrow> [''m='' @ repr_float ev (metalness pb),
                         ''r='' @ repr_float ev (roughness pb),
                         ''a='' @ albedo_map pb]))"

text \<open>
  \<open>create_material\<close>: a cached key returns the cached path with no effect; otherwise
  the name is the sanitized hint (or \<open>material_<counter>\<close> for an empty hint), the
  counter is incremented, the material is defined at \<open>looks_path/name\<close> and cached.
  The material with its shader is one event of the trace, recorded when its inputs are
  complete (after the texture copy, if there is one).
\<close>

definition create_material ::
  "env \<Rightarrow> string \<Rightarrow> string \<Rightarrow> run_state \<Rightarrow> SdfMaterial \<Rightarrow> string \<Rightarrow> string \<times> run_state" where
  "create_material ev mesh_dir looks_path st sdf_mat name_hint =
     (let mat_key = material_hash ev sdf_mat
      in case map_of (material_cache st) mat_key of
           Some mat_path \<Rightarrow> (mat_path, st)
         | None \<Rightarrow>
             let mat_name = (if name_hint \<noteq> [] then sanitize_usd_name name_hint
                             else ''material_'' @ str_nat (counter st));
                 st1 = st\<lparr>counter := counter st + 1\<rparr>;
                 mat_path = looks_path @ ''/'' @ mat_name;
                 (sh, st2) =
                   (case pbr sdf_mat of
                      Some pb \<Rightarrow>
                        if albedo_map_resolved pb \<noteq> [] \<and> path_exists ev (albedo_map_resolved pb)
                        then (case copy_texture ev mesh_dir st1 (albedo_map_resolved pb) of
                                (texture_file, st') \<Rightarrow>
                                  (\<lparr>diffuse_color = diffuse sdf_mat, metallic = metalness pb,
                                    shader_roughness = roughness pb,
                                    diffuse_texture = Some texture_file, ior = None\<rparr>, st'))
                        else (\<lparr>diffuse_color = diffuse sdf_mat, metallic = metalness pb,
                               shader_roughness = roughness pb,
                               diffuse_texture = None, ior = None\<rparr>, st1)
                    | None \<Rightarrow>
                        (\<lparr>diffuse_color = diffuse sdf_mat, metallic = 0,
                          shader_roughness = 1 / 2, diffuse_texture = None, ior = None\<rparr>, st1));
                 spec_avg = (case specular sdf_mat of (a, b, c) \<Rightarrow> (a + b + c) / 3);
                 sh' = (if spec_avg > 1 / 2 then sh\<lparr>ior := Some (3 / 2)\<rparr> else sh);
                 st3 = emit [DefineMaterial mat_path sh'] st2
             in (mat_path,
                 st3\<lparr>material_cache := AList.update mat_key mat_path (material_cache st3)\<rparr>))"

definition assign_material :: "string \<Rightarrow> string \<Rightarrow> run_state \<Rightarrow> run_state" where
  "assign_material prim_path material_path st = emit [BindMaterial prim_path material_path] st"

section \<open>physics.py\<close>

definition setup_articulation_root :: "string \<Rightarrow> run_state \<Rightarrow> run_state" where
  "setup_articulation_root root_path st = emit [ApplyArticulationRoot root_path] st"

definition apply_rigid_body :: "string \<Rightarrow> SdfLink \<Rightarrow> run_state \<Rightarrow> run_state" where
  "apply_rigid_body link_path link st =
     emit (ApplyRigidBody link_path #
           (case inertial link of
              None \<Rightarrow> []
            | Some i \<Rightarrow>
                if mass i > 0
                then [ApplyMass link_path (mass i) (position (inertial_pose i))
                        (ixx (inertia i), iyy (inertia i), izz (inertia i))]
                else [])) st"

definition apply_collision :: "string \<Rightarrow> run_state \<Rightarrow> run_state" where
  "apply_collision collision_prim_path st = emit [ApplyCollision collision_prim_path] st"

text \<open>
  The revolute joint converts both limits to degrees and tests the converted values
  against \<open>1e10\<close>; the prismatic joint tests and sets the limits as they are.
\<close>

definition create_revolute_joint :: "string \<Rightarrow> string \<Rightarrow> string \<Rightarrow> SdfJoint \<Rightarrow> usd_joint" where
  "create_revolute_joint joint_path parent_path child_path joint =
     (let lower_deg = degrees (lower_limit (axis joint));
          upper_deg = degrees (upper_limit (axis joint))
      in \<lparr>jt_kind = ''RevoluteJoint'', jt_path = joint_path,
           jt_body0 = parent_path, jt_body1 = child_path,
           jt_axis = Some (determine_axis (xyz (axis joint))),
           jt_local_pos0 = position (joint_pose joint),
           jt_local_rot0 = to_quaternion_wxyz (joint_pose joint),
           jt_lower_limit = (if \<bar>lower_deg\<bar> < 10 ^ 10 then Some lower_deg else None),
           jt_upper_limit = (if \<bar>upper_deg\<bar> < 10 ^ 10 then Some upper_deg else None),
           jt_drive = (if damping (axis joint) > 0
                       then Some (''angular'', damping (axis joint),
                                  if stiffness (axis joint) > 0
                                  then Some (stiffness (axis joint)) else None)
                       else None)\<rparr>)"

definition create_prismatic_joint :: "string \<Rightarrow> string \<Rightarrow> string \<Rightarrow> SdfJoint \<Rightarrow> usd_joint" where
  "create_prismatic_joint joint_path parent_path child_path joint =
     \<lparr>jt_kind = ''PrismaticJoint'', jt_path = joint_path,
      jt_body0 = parent_path, jt_body1 = child_path,
      jt_axis = Some (determine_axis (xyz (axis joint))),
      jt_local_pos0 = position (joint_pose joint),
      jt_local_rot0 = to_quaternion_wxyz (joint_pose joint),
      jt_lower_limit = (if \<bar>lower_limit (axis joint)\<bar> < 10 ^ 10
                        then Some (lower_limit (axis joint)) else None),
      jt_upper_limit = (if \<bar>upper_limit (axis joint)\<bar> < 10 ^ 10
                        then Some (upper_limit (axis joint)) else None),
      jt_drive = (if damping (axis joint) > 0
                  then Some (''linear'', damping (axis joint), None) else None)\<rparr>"

definition create_fixed_joint :: "string \<Rightarrow> string \<Rightarrow> string \<Rightarrow> SdfJoint \<Rightarrow> usd_joint" where
  "create_fixed_joint joint_path parent_path child_path joint =
     \<lparr>jt_kind = ''FixedJoint'', jt_path = joint_path,
      jt_body0 = parent_path, jt_body1 = child_path,
      jt_axis = None,
      jt_local_pos0 = position (joint_pose joint),
      jt_local_rot0 = to_quaternion_wxyz (joint_pose joint),
      jt_lower_limit = None, jt_upper_limit = None, jt_drive = None\<rparr>"

text \<open>\<open>create_joint\<close>: the joint prim it defines, if any, and the warning it logs, if any.\<close>

definition create_joint :: "string \<Rightarrow> SdfJoint \<Rightarrow> usd_joint option \<times> log_entry list" where
  "create_joint model_path joint =
     (let joint_path = model_path @ ''/'' @ sanitize_usd_name (joint_name joint);
          parent_path = model_path @ ''/'' @ sanitize_usd_name (parent joint);
          child_path = model_path @ ''/'' @ sanitize_usd_name (child joint)
      in if joint_type joint = ''revolute''
         then (Some (create_revolute_joint joint_path parent_path child_path joint), [])
         else if joint_type joint = ''prismatic''
         then (Some (create_prismatic_joint joint_path parent_path child_path joint), [])
         else if joint_type joint = ''fixed''
         then (Some (create_fixed_joint joint_path parent_path child_path joint), [])
         else if joint_type joint = ''ball''
         then (Some (create_fixed_joint joint_path parent_path child_path joint),
               [Log WARNING (''  Ball joint '' @ joint_name joint
                             @ '' converted to fixed (not fully supported)'')])
         else (None, [Log WARNING (''  Unsupported joint type '' @ joint_type joint
                                   @ '' for '' @ joint_name joint)]))"

definition log_events :: "log_entry list \<Rightarrow> event list" where
  "log_events ls = map (\<lambda>l. case l of Log lv msg \<Rightarrow> Logged lv msg) ls"

definition create_joint_events :: "string \<Rightarrow> SdfJoint \<Rightarrow> event list" where
  "create_joint_events model_path joint =
     (case create_joint model_path joint of
        (j, ls) \<Rightarrow> (case j of None \<Rightarrow> [] | Some u \<Rightarrow> [DefineJoint u]) @ log_events ls)"

section \<open>usd_builder.py\<close>

text \<open>The options of a run, as the constructors of the converter and the builder keep them.\<close>

record config =
  output_path :: string
  up_axis :: string
  scale :: real
  include_physics :: bool
  include_collision :: bool

definition builder_output_dir :: "env \<Rightarrow> config \<Rightarrow> string" where
  "builder_output_dir ev cfg = dirname (abspath ev (output_path cfg))"

text \<open>\<open>_set_xform\<close>: translate, orient, and a scale when one applies.\<close>

definition set_xform :: "config \<Rightarrow> string \<Rightarrow> Pose \<Rightarrow> vec3 option \<Rightarrow> event" where
  "set_xform cfg prim_path pose sc =
     SetXform prim_path (pos_x pose, pos_y pose, pos_z pose) (to_quaternion_wxyz pose)
       (if sc \<noteq> None \<and> sc \<noteq> Some (1, 1, 1) then sc
        else if scale cfg \<noteq> 1 then Some (scale cfg, scale cfg, scale cfg)
        else None)"

definition build_mesh_reference ::
  "env \<Rightarrow> config \<Rightarrow> string \<Rightarrow> run_state \<Rightarrow> string \<Rightarrow> SdfMeshGeometry \<Rightarrow> Pose
   \<Rightarrow> string option \<times> run_state" where
  "build_mesh_reference ev cfg mesh_dir st prim_path mesh_geom pose =
     (if resolved_path mesh_geom = [] \<or> \<not> path_exists ev (resolved_path mesh_geom)
      then (None, emit [Logged WARNING (''  Mesh file not found: '' @ resolved_path mesh_geom)] st)
      else (case mc_convert ev mesh_dir st (resolved_path mesh_geom) of
              (Inl e, st1) \<Rightarrow> (None, emit [Logged ERROR ''  Mesh conversion failed''] st1)
            | (Inr usd_mesh_path, st1) \<Rightarrow>
                (Some prim_path,
                 emit [DefineXform prim_path,
                       set_xform cfg prim_path pose (Some (mesh_scale mesh_geom)),
                       AddReference prim_path
                         (''./'' @ relpath ev usd_mesh_path (builder_output_dir ev cfg))] st1)))"

definition build_box :: "config \<Rightarrow> string \<Rightarrow> SdfBoxGeometry \<Rightarrow> Pose \<Rightarrow> string \<times> event list" where
  "build_box cfg prim_path b pose =
     (prim_path @ ''/Box'',
      [DefineXform prim_path, set_xform cfg prim_path pose None,
       DefineCube (prim_path @ ''/Box'') 1 (box_size b)])"

definition build_cylinder ::
  "config \<Rightarrow> string \<Rightarrow> SdfCylinderGeometry \<Rightarrow> Pose \<Rightarrow> string \<times> event list" where
  "build_cylinder cfg prim_path cyl pose =
     (prim_path @ ''/Cylinder'',
      [DefineXform prim_path, set_xform cfg prim_path pose None,
       DefineCylinder (prim_path @ ''/Cylinder'') (cyl_radius cyl) (cyl_length cyl) ''Z''])"

definition build_sphere ::
  "config \<Rightarrow> string \<Rightarrow> SdfSphereGeometry \<Rightarrow> Pose \<Rightarrow> string \<times> event list" where
  "build_sphere cfg prim_path sph pose =
     (prim_path @ ''/Sphere'',
      [DefineXform prim_path, set_xform cfg prim_path pose None,
       DefineSphere (prim_path @ ''/Sphere'') (sph_radius sph)])"

definition build_capsule ::
  "config \<Rightarrow> string \<Rightarrow> SdfCapsuleGeometry \<Rightarrow> Pose \<Rightarrow> string \<times> event list" where
  "build_capsule cfg prim_path cap pose =
     (prim_path @ ''/Capsule'',
      [DefineXform prim_path, set_xform cfg prim_path pose None,
       DefineCapsule (prim_path @ ''/Capsule'') (cap_radius cap) (cap_length cap) ''Z''])"

text \<open>\<open>_build_geometry\<close>: the first populated field decides; with none the result is \<open>None\<close>.\<close>

definition build_geometry ::
  "env \<Rightarrow> config \<Rightarrow> string \<Rightarrow> run_state \<Rightarrow> string \<Rightarrow> SdfGeometry \<Rightarrow> Pose
   \<Rightarrow> string option \<times> run_state" where
  "build_geometry ev cfg mesh_dir st prim_path geometry pose =
     (case mesh geometry of
        Some m \<Rightarrow> build_mesh_reference ev cfg mesh_dir st prim_path m pose
      | None \<Rightarrow>
     (case box geometry of
        Some b \<Rightarrow> (case build_box cfg prim_path b pose of (p, es) \<Rightarrow> (Some p, emit es st))
      | None \<Rightarrow>
     (case cylinder geometry of
        Some c \<Rightarrow> (case build_cylinder cfg prim_path c pose of (p, es) \<Rightarrow> (Some p, emit es st))
      | None \<Rightarrow>
     (case sphere geometry of
        Some s \<Rightarrow> (case build_sphere cfg prim_path s pose of (p, es) \<Rightarrow> (Some p, emit es st))
      | None \<Rightarrow>
     (case capsule geometry of
        Some c \<Rightarrow> (case build_capsule cfg prim_path c pose of (p, es) \<Rightarrow> (Some p, emit es st))
      | None \<Rightarrow> (None, st))))))"

definition build_visual ::
  "env \<Rightarrow> config \<Rightarrow> string \<Rightarrow> string \<Rightarrow> string \<Rightarrow> run_state \<Rightarrow> SdfVisual \<Rightarrow> run_state" where
  "build_visual ev cfg mesh_dir looks_path parent_path st visual =
     (let vis_name' = sanitize_usd_name (vis_name visual);
          vis_path = parent_path @ ''/'' @ vis_name'
      in case vis_geometry visual of
           None \<Rightarrow> st
         | Some g \<Rightarrow>
             (case build_geometry ev cfg mesh_dir st vis_path g (vis_pose visual) of
                (None, st1) \<Rightarrow> st1
              | (Some geom_path, st1) \<Rightarrow>
                  (case vis_material visual of
                     None \<Rightarrow> st1
                   | Some m \<Rightarrow>
                       (case create_material ev mesh_dir looks_path st1 m vis_name' of
                          (mat_path, st2) \<Rightarrow> assign_material geom_path mat_path st2))))"

definition build_collision ::
  "env \<Rightarrow> config \<Rightarrow> string \<Rightarrow> string \<Rightarrow> run_state \<Rightarrow> SdfCollision \<Rightarrow> run_state" where
  "build_collision ev cfg mesh_dir parent_path st collision =
     (let col_path = parent_path @ ''/'' @ sanitize_usd_name (col_name collision)
      in case col_geometry collision of
           None \<Rightarrow> st
         | Some g \<Rightarrow>
             (case build_geometry ev cfg mesh_dir st col_path g (col_pose collision) of
                (None, st1) \<Rightarrow> st1
              | (Some geom_path, st1) \<Rightarrow> apply_collision geom_path st1))"

definition build_link ::
  "env \<Rightarrow> config \<Rightarrow> string \<Rightarrow> string \<Rightarrow> string \<Rightarrow> run_state \<Rightarrow> SdfLink \<Rightarrow> run_state" where
  "build_link ev cfg mesh_dir looks_path model_path st link =
     (let link_path = model_path @ ''/'' @ sanitize_usd_name (link_name link);
          st1 = emit [DefineXform link_path, set_xform cfg link_path (link_pose link) None] st;
          st2 = (if include_physics cfg then apply_rigid_body link_path link st1 else st1);
          st3 = (if visuals link \<noteq> []
                 then foldl (build_visual ev cfg mesh_dir looks_path (link_path @ ''/visuals''))
                        (emit [DefineScope (link_path @ ''/visuals'')] st2) (visuals link)
                 else st2)
      in if include_collision cfg \<and> collisions link \<noteq> []
         then foldl (build_collision ev cfg mesh_dir (link_path @ ''/collisions''))
                (emit [DefineScope (link_path @ ''/collisions'')] st3) (collisions link)
         else st3)"

definition build :: "env \<Rightarrow> config \<Rightarrow> string \<Rightarrow> run_state \<Rightarrow> SdfModel \<Rightarrow> run_state" where
  "build ev cfg mesh_dir st model =
     (let model_path = ''/'' @ sanitize_usd_name (model_name model);
          looks_path = model_path @ ''/Looks'';
          st1 = emit [CreateStage (output_path cfg) (if up_axis cfg = ''Z'' then ''Z'' else ''Y''),
                      SetDefaultPrim model_path,
                      DefineXform model_path, set_xform cfg model_path (model_pose model) None,
                      DefineScope looks_path] st;
          st2 = (if include_physics cfg then setup_articulation_root model_path st1 else st1);
          st3 = foldl (build_link ev cfg mesh_dir looks_path model_path) st2 (links model);
          st4 = (if include_physics cfg
                 then foldl (\<lambda>s j. emit (create_joint_events model_path j) s) st3 (joints model)
                 else st3)
      in emit [Save] st4)"

section \<open>converter.py\<close>

text \<open>The resolved paths of the mesh geometries of a model, in the order of the walk.\<close>

definition geometry_mesh_path :: "SdfGeometry option \<Rightarrow> string list" where
  "geometry_mesh_path g =
     (case g of
        None \<Rightarrow> []
      | Some g' \<Rightarrow> (case mesh g' of None \<Rightarrow> [] | Some m \<Rightarrow> [resolved_path m]))"

definition link_mesh_paths :: "bool \<Rightarrow> SdfLink \<Rightarrow> string list" where
  "link_mesh_paths with_collisions link =
     concat (map (\<lambda>v. geometry_mesh_path (vis_geometry v)) (visuals link))
     @ (if with_collisions
        then concat (map (\<lambda>c. geometry_mesh_path (col_geometry c)) (collisions link))
        else [])"

definition mesh_paths :: "bool \<Rightarrow> SdfModel \<Rightarrow> string list" where
  "mesh_paths with_collisions model = concat (map (link_mesh_paths with_collisions) (links model))"

text \<open>\<open>sorted(mesh_paths)\<close> of the set: the distinct paths in increasing order.\<close>

definition sorted_mesh_paths :: "bool \<Rightarrow> SdfModel \<Rightarrow> string list" where
  "sorted_mesh_paths with_collisions model = sort (remdups (mesh_paths with_collisions model))"

text \<open>
  The pre-conversion loop: a path that exists is converted; a failure is logged and
  the loop goes on. The number counts the conversions that returned.
\<close>

fun preconvert :: "env \<Rightarrow> string \<Rightarrow> string list \<Rightarrow> run_state \<times> nat \<Rightarrow> run_state \<times> nat" where
  "preconvert ev mesh_dir [] acc = acc"
| "preconvert ev mesh_dir (mesh_path # ps) (st, converted) =
     (if path_exists ev mesh_path
      then (case mc_convert ev mesh_dir st mesh_path of
              (Inr u, st1) \<Rightarrow> preconvert ev mesh_dir ps (st1, converted + 1)
            | (Inl e, st1) \<Rightarrow>
                preconvert ev mesh_dir ps
                  (emit [Logged ERROR (''  Failed to convert '' @ mesh_path)] st1, converted))
      else preconvert ev mesh_dir ps (st, converted))"

record summary =
  sum_output :: string
  sum_links :: nat
  sum_joints :: nat
  sum_converted :: nat

text \<open>
  \<open>SdfToUsdConverter.convert\<close> on a model already loaded: the pre-conversion pass, then
  the build. \<open>convert\<close> loads the model first; a loader exception ends the run.
  Creating the output directories and reading the size of the written file are outside
  the model, as is the constructor's test that the input file exists.
\<close>

definition convert_model :: "env \<Rightarrow> config \<Rightarrow> SdfModel \<Rightarrow> summary \<times> run_state" where
  "convert_model ev cfg model =
     (let mesh_dir = mesh_output_dir (dirname (output_path cfg));
          (st1, converted) =
            preconvert ev mesh_dir (sorted_mesh_paths (include_collision cfg) model) (init_state, 0);
          st2 = build ev cfg mesh_dir st1 model
      in (\<lparr>sum_output = output_path cfg, sum_links = length (links model),
           sum_joints = length (joints model), sum_converted = converted\<rparr>, st2))"

definition convert ::
  "env \<Rightarrow> config \<Rightarrow> (string \<Rightarrow> real option) \<Rightarrow> string \<Rightarrow> elem \<Rightarrow> error + summary \<times> run_state" where
  "convert ev cfg pf model_dir root_elem =
     bind_err (parse pf model_dir root_elem) (\<lambda>model. Inr (convert_model ev cfg model))"

section \<open>Notions for the statements about a run\<close>

text \<open>
  The artifact path \<open>convert\<close> chooses for a source that is not cached.
\<close>

definition usd_target :: "string \<Rightarrow> run_state \<Rightarrow> string \<Rightarrow> string" where
  "usd_target md st a =
     unique_usd_path md (fst (splitext (basename a))) (map snd (mc_cache st))
       (path_join md (fst (splitext (basename a)) @ ''.usd'')) 1"


text \<open>
  The conversion of the source \<open>a\<close> fails at the external converter whenever it is attempted.
\<close>

definition mesh_broken :: "env \<Rightarrow> string \<Rightarrow> bool" where
  "mesh_broken ev a =
     (path_exists ev a \<and> lower (snd (splitext a)) \<in> set SUPPORTED_MESH_FORMATS
      \<and> copy_adjacent_ok ev a \<and> (\<forall>n d. \<not> conversion_ok ev n a d))"

text \<open>
  The source \<open>a\<close> is cached with the artifact \<open>u\<close>, after exactly one invocation of the
  external converter for it, which produced \<open>u\<close>.
\<close>

definition converted_once :: "string \<Rightarrow> string \<Rightarrow> run_state \<Rightarrow> bool" where
  "converted_once a u st =
     (map_of (mc_cache st) a = Some u \<and> invocations_of a (trace st) = 1
      \<and> RunConversion a u True \<in> set (trace st))"


text \<open>
  From \<open>st\<close> to \<open>st'\<close> the trace only grows, and a source converted once stays converted once.
\<close>

definition keeps :: "string \<Rightarrow> string \<Rightarrow> run_state \<Rightarrow> run_state \<Rightarrow> bool" where
  "keeps a u st st' =
     ((converted_once a u st \<longrightarrow> converted_once a u st') \<and> set (trace st) \<subseteq> set (trace st'))"

text \<open>
  From \<open>st\<close> to \<open>st'\<close> the mesh cache is unchanged and the events added are no invocations
  of the external converter for \<open>a\<close>.
\<close>

definition quiet :: "string \<Rightarrow> run_state \<Rightarrow> run_state \<Rightarrow> bool" where
  "quiet a st st' =
     (mc_cache st' = mc_cache st
      \<and> (\<exists>es. trace st' = trace st @ es \<and> (\<forall>e \<in> set es. \<not> is_run_of a e)))"

text \<open>
  The errors logged in a trace.
\<close>

fun is_error :: "event \<Rightarrow> bool" where
  "is_error (Logged lv msg) = (lv = ERROR)"
| "is_error _ = False"

definition error_logs :: "event list \<Rightarrow> nat" where
  "error_logs tr = length (filter is_error tr)"

text \<open>
  The source \<open>a\<close> is not cached, the external converter has been invoked \<open>n\<close> times for
  it, and at least as many errors have been logged.
\<close>

definition attempts :: "string \<Rightarrow> nat \<Rightarrow> run_state \<Rightarrow> bool" where
  "attempts a n st =
     (map_of (mc_cache st) a = None \<and> invocations_of a (trace st) = n
      \<and> n \<le> error_logs (trace st))"

text \<open>
  A resolved path for which the build calls the converter, and which normalises to \<open>a\<close>.
\<close>

definition tried :: "env \<Rightarrow> string \<Rightarrow> string \<Rightarrow> bool" where
  "tried ev a q = (q \<noteq> [] \<and> path_exists ev q \<and> abspath ev q = a)"





text \<open>
  The first and the last part of \<open>build\<close>, around the loop over the links.
\<close>

definition build_start :: "config \<Rightarrow> run_state \<Rightarrow> SdfModel \<Rightarrow> run_state" where
  "build_start cfg st model =
     (let model_path = ''/'' @ sanitize_usd_name (model_name model);
          st1 = emit [CreateStage (output_path cfg) (if up_axis cfg = ''Z'' then ''Z'' else ''Y''),
                      SetDefaultPrim model_path,
                      DefineXform model_path, set_xform cfg model_path (model_pose model) None,
                      DefineScope (model_path @ ''/Looks'')] st
      in if include_physics cfg then setup_articulation_root model_path st1 else st1)"

definition build_finish :: "config \<Rightarrow> run_state \<Rightarrow> SdfModel \<Rightarrow> run_state" where
  "build_finish cfg st model =
     emit [Save]
       (if include_physics cfg
        then foldl (\<lambda>s j. emit (create_joint_events
                                   (''/'' @ sanitize_usd_name (model_name model)) j) s)
               st (joints model)
        else st)"


text \<open>
  The events of the pre-conversion pass: the trace up to the creation of the stage, which
  is the first event of the build.
\<close>

fun is_create_stage :: "event \<Rightarrow> bool" where
  "is_create_stage (CreateStage _ _) = True"
| "is_create_stage _ = False"

definition pre_pass :: "event list \<Rightarrow> event list" where
  "pre_pass tr = takeWhile (\<lambda>e. \<not> is_create_stage e) tr"

text \<open>
  The events the pre-conversion pass can add for the resolved path \<open>q\<close>: none (the file
  does not exist, or its normalised path is cached); the logged failure alone (the
  normalised path does not exist, or its extension is not supported); or the copy of the
  adjacent textures, followed by the logged failure, by a failed invocation of the external
  converter and the logged failure, or by a successful invocation.
\<close>

definition pre_pass_block :: "env \<Rightarrow> string \<Rightarrow> event list \<Rightarrow> bool" where
  "pre_pass_block ev q es =
     (es = []
      \<or> es = [Logged ERROR (''  Failed to convert '' @ q)]
      \<or> es = [CopyAdjacentTextures (abspath ev q) False,
               Logged ERROR (''  Failed to convert '' @ q)]
      \<or> (\<exists>d. es = [CopyAdjacentTextures (abspath ev q) True,
                     RunConversion (abspath ev q) d False,
                     Logged ERROR (''  Failed to convert '' @ q)])
      \<or> (\<exists>d. es = [CopyAdjacentTextures (abspath ev q) True,
                     RunConversion (abspath ev q) d True]))"

text \<open>
  From \<open>st\<close> to \<open>st'\<close> the trace only grows at its end.
\<close>

definition extends :: "run_state \<Rightarrow> run_state \<Rightarrow> bool" where
  "extends st st' = (\<exists>es. trace st' = trace st @ es)"



text \<open>
  Example inputs: a world in which one mesh file exists and the external converter always
  succeeds (or always fails), the options of a run, and a model of one link whose visuals
  and collisions reference that mesh.
\<close>

definition example_env :: "bool \<Rightarrow> env" where
  "example_env ok =
     \<lparr>path_exists = (\<lambda>p. p = ''/m/meshes/a.dae''), abspath = (\<lambda>p. p),
      relpath = (\<lambda>p d. drop (length d + 1) p), copy_adjacent_ok = (\<lambda>_. True),
      conversion_ok = (\<lambda>_ _ _. ok), repr_float = (\<lambda>_. [])\<rparr>"

definition example_cfg :: config where
  "example_cfg = \<lparr>output_path = ''/out/model.usda'', up_axis = ''Z'', scale = 1,
                   include_physics = True, include_collision = True\<rparr>"

definition example_mesh :: SdfGeometry where
  "example_mesh =
     empty_geometry\<lparr>mesh := Some \<lparr>uri = ''model://m/meshes/a.dae'',
                       resolved_path = ''/m/meshes/a.dae'', mesh_scale = (1, 1, 1)\<rparr>\<rparr>"

definition mesh_visual :: "string \<Rightarrow> SdfVisual" where
  "mesh_visual n =
     \<lparr>vis_name = n, vis_pose = identity, vis_geometry = Some example_mesh,
      vis_material = None\<rparr>"

definition mesh_collision :: "string \<Rightarrow> SdfCollision" where
  "mesh_collision n = \<lparr>col_name = n, col_pose = identity, col_geometry = Some example_mesh\<rparr>"

definition example_model :: "SdfVisual list \<Rightarrow> SdfCollision list \<Rightarrow> SdfModel" where
  "example_model vs cs =
     \<lparr>model_name = ''m'', model_pose = identity,
      links = [\<lparr>link_name = ''base'', link_pose = identity, inertial = None,
                visuals = vs, collisions = cs\<rparr>],
      joints = []\<rparr>"

text \<open>
  Example inputs for the order of the pre-conversion pass: a world in which two mesh files
  exist, and a visual whose mesh has a given resolved path.
\<close>

definition two_mesh_env :: env where
  "two_mesh_env =
     (example_env True)\<lparr>path_exists := (\<lambda>p. p = ''/m/meshes/a.dae'' \<or> p = ''/m/meshes/b.dae'')\<rparr>"

definition mesh_visual_of :: "string \<Rightarrow> string \<Rightarrow> SdfVisual" where
  "mesh_visual_of n p =
     \<lparr>vis_name = n, vis_pose = identity,
      vis_geometry = Some (empty_geometry\<lparr>mesh := Some \<lparr>uri = p, resolved_path = p,
                                                       mesh_scale = (1, 1, 1)\<rparr>\<rparr>),
      vis_material = None\<rparr>"


text \<open>
  Example inputs for the materials: a \<open>repr\<close> that agrees with Python's on the floats 0.0,
  1.0 and 0.1 (the only ones in the example), and a model of two links, each with a box
  visual named \<open>visual\<close>, the first red and the second blue.
\<close>

definition example_repr :: "real \<Rightarrow> string" where
  "example_repr r = (if r = 0 then ''0.0'' else if r = 1 then ''1.0'' else ''0.1'')"

definition material_env :: env where
  "material_env = (example_env True)\<lparr>repr_float := example_repr\<rparr>"

definition material_visual :: "vec3 \<Rightarrow> SdfVisual" where
  "material_visual d =
     \<lparr>vis_name = ''visual'', vis_pose = identity,
      vis_geometry = Some (empty_geometry\<lparr>box := Some \<lparr>box_size = (1, 1, 1)\<rparr>\<rparr>),
      vis_material = Some \<lparr>diffuse = d, specular = (1 / 10, 1 / 10, 1 / 10), pbr = None\<rparr>\<rparr>"

definition two_material_model :: SdfModel where
  "two_material_model =
     \<lparr>model_name = ''m'', model_pose = identity,
      links = [\<lparr>link_name = ''a'', link_pose = identity, inertial = None,
                visuals = [material_visual (1, 0, 0)], collisions = []\<rparr>,
               \<lparr>link_name = ''b'', link_pose = identity, inertial = None,
                visuals = [material_visual (0, 0, 1)], collisions = []\<rparr>],
      joints = []\<rparr>"

text \<open>The creations and the bindings of materials in a trace.\<close>

fun is_material_event :: "event \<Rightarrow> bool" where
  "is_material_event (DefineMaterial _ _) = True"
| "is_material_event (BindMaterial _ _) = True"
| "is_material_event _ = False"

section \<open>Properties of the naming sanitizer\<close>

lemmas char_class_defs = isdigit_def isalnum_def isspace_def

lemma sanitize_examples:
  "sanitize_usd_name ''left-leg.01'' = ''left_leg_01''"
  "sanitize_usd_name ''9wheel'' = ''_9wheel''"
  "sanitize_usd_name [] = ''_unnamed''"
  by (simp_all add: sanitize_usd_name_def replace_char_def char_class_defs)

text \<open>
  Claim C4. The sanitizer replaces \<open>-\<close>, \<open>.\<close> and space by \<open>_\<close>, drops every character
  that is not alphanumeric or \<open>_\<close>, prefixes \<open>_\<close> if the result starts with a digit and
  maps the empty result to \<open>_unnamed\<close>, so that the output never starts with a digit.
  The source tests the first character before it filters: on \<open>#9wheel\<close> the first
  character is \<open>#\<close>, no underscore is prefixed, the filter then drops \<open>#\<close>, and the
  output \<open>9wheel\<close> starts with a digit, where the sanitizer of the specification gives
  \<open>_9wheel\<close>.
\<close>

theorem sanitize_leading_digit_after_filter:
  "sanitize_usd_name ''#9wheel'' = ''9wheel'' \<and> sanitize_spec ''#9wheel'' = ''_9wheel''"
  by (simp add: sanitize_usd_name_def sanitize_spec_def replace_char_def char_class_defs)

section \<open>Properties of the axis snapping\<close>

text \<open>
  Claim C7. A joint axis snaps to the principal axis whose component has the largest
  magnitude, ties going to X, then Y, then Z: the result is X exactly when the first
  magnitude is at least the other two, Y exactly when the second is greater than the first
  and at least the third, Z exactly when the third is greater than both. The axis
  (0.1, 0.9, 0.05) snaps to Y and (0, 0, 1) to Z.
\<close>

theorem determine_axis_largest:
  "(determine_axis (x, y, z) = ''X'') = (\<bar>x\<bar> \<ge> \<bar>y\<bar> \<and> \<bar>x\<bar> \<ge> \<bar>z\<bar>)
   \<and> (determine_axis (x, y, z) = ''Y'') = (\<bar>y\<bar> > \<bar>x\<bar> \<and> \<bar>y\<bar> \<ge> \<bar>z\<bar>)
   \<and> (determine_axis (x, y, z) = ''Z'') = (\<bar>z\<bar> > \<bar>x\<bar> \<and> \<bar>z\<bar> > \<bar>y\<bar>)
   \<and> determine_axis (1 / 10, 9 / 10, 5 / 100) = ''Y''
   \<and> determine_axis (0, 0, 1) = ''Z''"
  by (auto simp: determine_axis_def Let_def)

section \<open>Properties of the pose parser\<close>

lemma split_acc_trailing:
  "list_all isspace ws \<Longrightarrow> split_acc (s @ ws) cur = split_acc s cur"
proof (induction s arbitrary: cur)
  case Nil
  then show ?case
  proof (induction ws arbitrary: cur)
    case Nil
    then show ?case by simp
  next
    case (Cons w ws)
    from Cons.prems have w: "isspace w" and ws: "list_all isspace ws" by simp_all
    from Cons.IH ws have ih: "\<And>c. split_acc ([] @ ws) c = split_acc [] c" by simp
    show ?case using w ih [of "[]"] ih [of cur] by (cases "cur = []") simp_all
  qed
next
  case (Cons c s)
  then show ?case by simp
qed

lemma split_acc_leading: "split_acc (dropWhile isspace s) [] = split_acc s []"
  by (induction s) simp_all

lemma rev_dropWhile_decomp:
  "t = rev (dropWhile P (rev t)) @ rev (takeWhile P (rev t))"
  by (metis rev_append rev_rev_ident takeWhile_dropWhile_id)

lemma strip_decomp: "\<exists>ws. list_all isspace ws \<and> dropWhile isspace s = strip s @ ws"
proof -
  let ?t = "dropWhile isspace s"
  have "?t = strip s @ rev (takeWhile isspace (rev ?t))"
    unfolding strip_def by (rule rev_dropWhile_decomp)
  moreover have "list_all isspace (rev (takeWhile isspace (rev ?t)))"
    by (simp add: list_all_iff) (meson set_takeWhileD)
  ultimately show ?thesis by blast
qed

text \<open>Stripping first does not change the split.\<close>

lemma split_ws_strip: "split_ws (strip s) = split_ws s"
proof -
  obtain ws where ws: "list_all isspace ws" and d: "dropWhile isspace s = strip s @ ws"
    using strip_decomp by blast
  have "split_acc (strip s) [] = split_acc (strip s @ ws) []"
    using split_acc_trailing [OF ws] by simp
  also have "\<dots> = split_acc s []"
    using d split_acc_leading [of s] by simp
  finally show ?thesis by (simp add: split_ws_def)
qed

lemma floats_of_all:
  "\<forall>t \<in> set ts. pf t \<noteq> None \<Longrightarrow> \<exists>rs. floats_of pf ts = Inr rs \<and> length rs = length ts"
  by (induction ts) auto

lemma floats_of_bad:
  "\<exists>t \<in> set ts. pf t = None \<Longrightarrow> floats_of pf ts = Inl ValueError"
  by (induction ts) (fastforce split: option.splits sum.splits)+

text \<open>A token that is not a float raises, whatever the number of tokens.\<close>

lemma parse_pose_string_bad_token:
  "\<exists>t \<in> set (split_ws s). pf t = None \<Longrightarrow> parse_pose_string pf s d = Inl ValueError"
  by (simp add: parse_pose_string_def split_ws_strip floats_of_bad bind_err_def)

lemmas decimal_defs = decimal_float_def unsigned_decimal_def digit_val_def

text \<open>
  Claim C5, as stated: for every input whose whitespace split does not have exactly six
  tokens, the pose parser does not raise. It fails on \<open>1 2 x\<close>: three tokens, and the
  conversion of \<open>x\<close> raises ValueError before the tokens are counted.
\<close>

theorem parse_pose_string_raises:
  "length (split_ws ''1 2 x'') = 3
   \<and> parse_pose_string decimal_float ''1 2 x'' False = Inl ValueError"
  by (simp add: parse_pose_string_def split_ws_def strip_def isspace_def bind_err_def decimal_defs)

text \<open>
  Claim C5, amended: for every input whose whitespace-separated tokens all convert to
  floats and whose number of tokens is not six, the pose parser does not raise: it logs
  a warning and returns the identity pose. A text with five numbers parses to the identity
  pose.
\<close>

theorem parse_pose_string_wrong_count:
  assumes "\<forall>t \<in> set (split_ws s). pf t \<noteq> None" and "length (split_ws s) \<noteq> 6"
  shows "parse_pose_string pf s d =
           Inr (identity, [Log WARNING (''Invalid pose string (expected 6 values): '' @ s)])"
proof -
  obtain rs where rs: "floats_of pf (split_ws s) = Inr rs"
    and len: "length rs = length (split_ws s)"
    using floats_of_all [OF assms(1)] by blast
  with assms(2) show ?thesis
    by (simp add: parse_pose_string_def split_ws_strip bind_err_def)
qed

theorem parse_pose_string_wrong_count_witness:
  "length (split_ws ''1 2 3 4 5'') = 5
   \<and> parse_pose_string decimal_float ''1 2 3 4 5'' False =
       Inr (identity, [Log WARNING ''Invalid pose string (expected 6 values): 1 2 3 4 5''])"
  using parse_pose_string_wrong_count [of "''1 2 3 4 5''" decimal_float False]
  by (simp add: split_ws_def isspace_def decimal_defs)

section \<open>Properties of the loader\<close>

lemma bind_err_Inr_iff: "(bind_err m f = Inr r) = (\<exists>v. m = Inr v \<and> f v = Inr r)"
  by (cases m) (simp_all add: bind_err_def)

lemmas parser_defs = parse_def parse_model_def parse_link_def parse_visual_def parse_collision_def
  parse_geometry_def parse_mesh_def parse_material_def parse_pbr_def parse_inertial_def
  parse_inertia_def parse_joint_def parse_joint_axis_def parse_pose_def parse_vec3_def
  parse_float_def with_child_def find_child_def findall_def get_attr_def bind_err_def
  float_text_def strip_text_def empty_geometry_def

lemma populated_simps:
  "populated (empty_geometry\<lparr>mesh := Some a\<rparr>) = 1"
  "populated (empty_geometry\<lparr>box := Some b\<rparr>) = 1"
  "populated (empty_geometry\<lparr>cylinder := Some c\<rparr>) = 1"
  "populated (empty_geometry\<lparr>sphere := Some d\<rparr>) = 1"
  "populated (empty_geometry\<lparr>capsule := Some f\<rparr>) = 1"
  "populated empty_geometry = 0"
  by (simp_all add: populated_def empty_geometry_def)

lemma type_name_simps:
  "type_name (empty_geometry\<lparr>mesh := Some a\<rparr>) = ''mesh''"
  "type_name (empty_geometry\<lparr>box := Some b\<rparr>) = ''box''"
  "type_name (empty_geometry\<lparr>cylinder := Some c\<rparr>) = ''cylinder''"
  "type_name (empty_geometry\<lparr>sphere := Some d\<rparr>) = ''sphere''"
  "type_name (empty_geometry\<lparr>capsule := Some f\<rparr>) = ''capsule''"
  "type_name empty_geometry = ''unknown''"
  by (simp_all add: type_name_def empty_geometry_def)

text \<open>
  What holds of every geometry the loader returns: the populated variant is the one the
  priority order selects, and no variant is populated exactly when the geometry element
  has none of the five shapes.
\<close>

lemma parse_geometry_variants:
  assumes "parse_geometry pf md e = Inr g"
  shows "type_name g = first_shape e
         \<and> populated g = (if first_shape e = ''unknown'' then 0 else 1)"
proof (cases "find_child e ''mesh''")
  case (Some x)
  with assms show ?thesis
    by (auto simp: parse_geometry_def bind_err_Inr_iff first_shape_def populated_simps
                   type_name_simps)
next
  case m: None
  show ?thesis
  proof (cases "find_child e ''box''")
    case (Some x)
    with m assms show ?thesis
      by (auto simp: parse_geometry_def bind_err_Inr_iff first_shape_def populated_simps
                     type_name_simps)
  next
    case b: None
    show ?thesis
    proof (cases "find_child e ''cylinder''")
      case (Some x)
      with m b assms show ?thesis
        by (auto simp: parse_geometry_def bind_err_Inr_iff first_shape_def populated_simps
                       type_name_simps)
    next
      case c: None
      show ?thesis
      proof (cases "find_child e ''sphere''")
        case (Some x)
        with m b c assms show ?thesis
          by (auto simp: parse_geometry_def bind_err_Inr_iff first_shape_def populated_simps
                         type_name_simps)
      next
        case s: None
        show ?thesis
        proof (cases "find_child e ''capsule''")
          case (Some x)
          with m b c s assms show ?thesis
            by (auto simp: parse_geometry_def bind_err_Inr_iff first_shape_def populated_simps
                           type_name_simps)
        next
          case None
          with m b c s assms show ?thesis
            by (auto simp: parse_geometry_def first_shape_def populated_simps type_name_simps)
        qed
      qed
    qed
  qed
qed

text \<open>
  Claim C8. Every geometry in a loaded model has exactly one of its five variants
  populated. The loader keeps a visual whose geometry element holds none of the five
  shapes (a \<open>plane\<close>, say): \<open>_parse_geometry\<close> returns a geometry with no variant set, the
  test \<open>if visual.geometry\<close> is true of it, and the loaded model holds a geometry with no
  populated variant.
\<close>

theorem plane_geometry_loaded_empty:
  "parse pf md
     (Elem ''sdf'' [] None
        [Elem ''model'' [(''name'', ''ground'')] None
           [Elem ''link'' [(''name'', ''link'')] None
              [Elem ''visual'' [(''name'', ''visual'')] None
                 [Elem ''geometry'' [] None [Elem ''plane'' [] None []]]]]])
   = Inr \<lparr>model_name = ''ground'', model_pose = identity,
          links = [\<lparr>link_name = ''link'', link_pose = identity, inertial = None,
                    visuals = [\<lparr>vis_name = ''visual'', vis_pose = identity,
                                vis_geometry = Some empty_geometry, vis_material = None\<rparr>],
                    collisions = []\<rparr>],
          joints = []\<rparr>
   \<and> populated empty_geometry = 0"
  by (simp add: parser_defs populated_def)

lemma with_child_geometry:
  "with_child e ''geometry'' None (\<lambda>g. bind_err (h g) (\<lambda>r. Inr (Some r))) = Inr g
   \<Longrightarrow> (g \<noteq> None) = (find_child e ''geometry'' \<noteq> None)"
  by (auto simp: with_child_def bind_err_Inr_iff split: option.splits)

lemma parse_visual_geometry:
  "parse_visual pf md e = Inr v
   \<Longrightarrow> (vis_geometry v \<noteq> None) = (find_child e ''geometry'' \<noteq> None)"
  unfolding parse_visual_def bind_err_Inr_iff
  using with_child_geometry by fastforce

lemma parse_collision_geometry:
  "parse_collision pf md e = Inr c
   \<Longrightarrow> (col_geometry c \<noteq> None) = (find_child e ''geometry'' \<noteq> None)"
  unfolding parse_collision_def bind_err_Inr_iff
  using with_child_geometry by fastforce

lemma parse_visuals_kept:
  "parse_visuals pf md es = Inr vs \<Longrightarrow>
     (\<forall>v \<in> set vs. vis_geometry v \<noteq> None)
     \<and> map Inr vs
         = map (parse_visual pf md) (filter (\<lambda>e. find_child e ''geometry'' \<noteq> None) es)"
proof (induction es arbitrary: vs)
  case Nil
  then show ?case by simp
next
  case (Cons e es)
  from Cons.prems obtain v vs' where v: "parse_visual pf md e = Inr v"
    and vs': "parse_visuals pf md es = Inr vs'"
    and vs: "vs = (if vis_geometry v \<noteq> None then v # vs' else vs')"
    by (auto simp: bind_err_Inr_iff)
  from Cons.IH [OF vs'] parse_visual_geometry [OF v] v vs show ?case
    by (cases "vis_geometry v = None") auto
qed

lemma parse_collisions_kept:
  "parse_collisions pf md es = Inr cs \<Longrightarrow>
     (\<forall>c \<in> set cs. col_geometry c \<noteq> None)
     \<and> map Inr cs
         = map (parse_collision pf md) (filter (\<lambda>e. find_child e ''geometry'' \<noteq> None) es)"
proof (induction es arbitrary: cs)
  case Nil
  then show ?case by simp
next
  case (Cons e es)
  from Cons.prems obtain c cs' where c: "parse_collision pf md e = Inr c"
    and cs': "parse_collisions pf md es = Inr cs'"
    and cs: "cs = (if col_geometry c \<noteq> None then c # cs' else cs')"
    by (auto simp: bind_err_Inr_iff)
  from Cons.IH [OF cs'] parse_collision_geometry [OF c] c cs show ?case
    by (cases "col_geometry c = None") auto
qed

lemma parse_link_kept:
  assumes "parse_link pf md e = Inr l"
  shows "(\<forall>v \<in> set (visuals l). vis_geometry v \<noteq> None)
     \<and> (\<forall>c \<in> set (collisions l). col_geometry c \<noteq> None)
     \<and> map Inr (visuals l) =
         map (parse_visual pf md)
           (filter (\<lambda>e. find_child e ''geometry'' \<noteq> None) (findall e ''visual''))
     \<and> map Inr (collisions l) =
         map (parse_collision pf md)
           (filter (\<lambda>e. find_child e ''geometry'' \<noteq> None) (findall e ''collision''))"
proof -
  from assms obtain vs cs where vs: "parse_visuals pf md (findall e ''visual'') = Inr vs"
    and cs: "parse_collisions pf md (findall e ''collision'') = Inr cs"
    and l: "visuals l = vs" "collisions l = cs"
    by (auto simp: parse_link_def bind_err_Inr_iff)
  from parse_visuals_kept [OF vs] parse_collisions_kept [OF cs] l show ?thesis by simp
qed

lemma parse_links_kept:
  "parse_links pf md es = Inr ls \<Longrightarrow> l \<in> set ls \<Longrightarrow>
     (\<forall>v \<in> set (visuals l). vis_geometry v \<noteq> None)
     \<and> (\<forall>c \<in> set (collisions l). col_geometry c \<noteq> None)"
proof (induction es arbitrary: ls)
  case Nil
  then show ?case by simp
next
  case (Cons e es)
  from Cons.prems(1) obtain l' ls' where l': "parse_link pf md e = Inr l'"
    and ls': "parse_links pf md es = Inr ls'" and ls: "ls = l' # ls'"
    by (auto simp: bind_err_Inr_iff)
  from Cons.prems(2) ls consider "l = l'" | "l \<in> set ls'" by auto
  then show ?case
  proof cases
    case 1
    with parse_link_kept [OF l'] show ?thesis by simp
  next
    case 2
    with Cons.IH [OF ls'] show ?thesis by simp
  qed
qed

lemma parse_model_kept:
  "parse_model pf md e = Inr m \<Longrightarrow> l \<in> set (links m) \<Longrightarrow>
     (\<forall>v \<in> set (visuals l). vis_geometry v \<noteq> None)
     \<and> (\<forall>c \<in> set (collisions l). col_geometry c \<noteq> None)"
  by (auto simp: parse_model_def bind_err_Inr_iff dest: parse_links_kept)

text \<open>
  Claim C10. In a loaded model every visual and every collision has a geometry that is
  not \<open>None\<close>; the visuals (collisions) of a loaded link are the parsed visual (collision)
  elements that have a geometry child, in document order, the others being omitted.
\<close>

theorem loaded_items_have_geometry:
  "(parse pf md root_elem = Inr m \<longrightarrow>
      (\<forall>l \<in> set (links m). (\<forall>v \<in> set (visuals l). vis_geometry v \<noteq> None)
                            \<and> (\<forall>c \<in> set (collisions l). col_geometry c \<noteq> None)))
   \<and> (parse_link pf md e = Inr l \<longrightarrow>
        map Inr (visuals l) =
          map (parse_visual pf md)
            (filter (\<lambda>v. find_child v ''geometry'' \<noteq> None) (findall e ''visual''))
        \<and> map Inr (collisions l) =
          map (parse_collision pf md)
            (filter (\<lambda>c. find_child c ''geometry'' \<noteq> None) (findall e ''collision'')))"
proof (intro conjI impI ballI)
  fix l' v
  assume "parse pf md root_elem = Inr m" "l' \<in> set (links m)" "v \<in> set (visuals l')"
  then show "vis_geometry v \<noteq> None"
    using parse_model_kept by (auto simp: parse_def split: option.splits if_splits)
next
  fix l' c
  assume "parse pf md root_elem = Inr m" "l' \<in> set (links m)" "c \<in> set (collisions l')"
  then show "col_geometry c \<noteq> None"
    using parse_model_kept by (auto simp: parse_def split: option.splits if_splits)
next
  assume "parse_link pf md e = Inr l"
  from parse_link_kept [OF this]
  show "map Inr (visuals l) =
          map (parse_visual pf md)
            (filter (\<lambda>v. find_child v ''geometry'' \<noteq> None) (findall e ''visual''))"
    by simp
next
  assume "parse_link pf md e = Inr l"
  from parse_link_kept [OF this]
  show "map Inr (collisions l) =
          map (parse_collision pf md)
            (filter (\<lambda>c. find_child c ''geometry'' \<noteq> None) (findall e ''collision''))"
    by simp
qed

theorem loaded_items_have_geometry_witness:
  "parse decimal_float ''/m''
     (Elem ''model'' [(''name'', ''m'')] None
        [Elem ''link'' [(''name'', ''l'')] None
           [Elem ''visual'' [(''name'', ''a'')] None
              [Elem ''geometry'' [] None [Elem ''box'' [] None []]],
            Elem ''visual'' [(''name'', ''b'')] None [],
            Elem ''collision'' [(''name'', ''c'')] None []]])
   = Inr \<lparr>model_name = ''m'', model_pose = identity,
          links = [\<lparr>link_name = ''l'', link_pose = identity, inertial = None,
                    visuals = [\<lparr>vis_name = ''a'', vis_pose = identity,
                                vis_geometry = Some (empty_geometry\<lparr>box := Some \<lparr>box_size = (1, 1, 1)\<rparr>\<rparr>),
                                vis_material = None\<rparr>],
                    collisions = []\<rparr>],
          joints = []\<rparr>
   \<and> parse_link decimal_float ''/m''
        (Elem ''link'' [(''name'', ''l'')] None
           [Elem ''visual'' [(''name'', ''a'')] None
              [Elem ''geometry'' [] None [Elem ''box'' [] None []]],
            Elem ''visual'' [(''name'', ''b'')] None [],
            Elem ''collision'' [(''name'', ''c'')] None []])
      = Inr \<lparr>link_name = ''l'', link_pose = identity, inertial = None,
             visuals = [\<lparr>vis_name = ''a'', vis_pose = identity,
                         vis_geometry = Some (empty_geometry\<lparr>box := Some \<lparr>box_size = (1, 1, 1)\<rparr>\<rparr>),
                         vis_material = None\<rparr>],
             collisions = []\<rparr>
   \<and> list_all (\<lambda>v. vis_geometry v \<noteq> None)
        [\<lparr>vis_name = ''a'', vis_pose = identity,
          vis_geometry = Some (empty_geometry\<lparr>box := Some \<lparr>box_size = (1, 1, 1)\<rparr>\<rparr>),
          vis_material = None\<rparr>]"
  using loaded_items_have_geometry
    [of decimal_float "''/m''"
        "Elem ''model'' [(''name'', ''m'')] None
        [Elem ''link'' [(''name'', ''l'')] None
           [Elem ''visual'' [(''name'', ''a'')] None
              [Elem ''geometry'' [] None [Elem ''box'' [] None []]],
            Elem ''visual'' [(''name'', ''b'')] None [],
            Elem ''collision'' [(''name'', ''c'')] None []]]"
        "\<lparr>model_name = ''m'', model_pose = identity,
          links = [\<lparr>link_name = ''l'', link_pose = identity, inertial = None,
                    visuals = [\<lparr>vis_name = ''a'', vis_pose = identity,
                                vis_geometry = Some (empty_geometry\<lparr>box := Some \<lparr>box_size = (1, 1, 1)\<rparr>\<rparr>),
                                vis_material = None\<rparr>],
                    collisions = []\<rparr>],
          joints = []\<rparr>"
        "Elem ''link'' [(''name'', ''l'')] None
           [Elem ''visual'' [(''name'', ''a'')] None
              [Elem ''geometry'' [] None [Elem ''box'' [] None []]],
            Elem ''visual'' [(''name'', ''b'')] None [],
            Elem ''collision'' [(''name'', ''c'')] None []]"
        "\<lparr>link_name = ''l'', link_pose = identity, inertial = None,
             visuals = [\<lparr>vis_name = ''a'', vis_pose = identity,
                         vis_geometry = Some (empty_geometry\<lparr>box := Some \<lparr>box_size = (1, 1, 1)\<rparr>\<rparr>),
                         vis_material = None\<rparr>],
             collisions = []\<rparr>"]
  by (simp add: parser_defs)

section \<open>Properties of the joint limits\<close>

lemma degrees_abs: "\<bar>degrees v\<bar> = \<bar>v\<bar> * (180 / pi)"
  by (simp add: degrees_def abs_mult)

lemma degrees_ge: "\<bar>v\<bar> \<le> \<bar>degrees v\<bar>"
proof -
  have "1 \<le> 180 / pi" using pi_less_4 pi_gt_zero by (simp add: field_simps)
  then have "\<bar>v\<bar> * 1 \<le> \<bar>v\<bar> * (180 / pi)" by (intro mult_left_mono) simp_all
  then show ?thesis by (simp add: degrees_abs)
qed

lemma degrees_1e9: "\<not> \<bar>degrees (10 ^ 9)\<bar> < 10 ^ 10"
proof -
  have "pi < 18" using pi_less_4 by simp
  then have "(10::real) ^ 10 \<le> 10 ^ 9 * (180 / pi)"
    using pi_gt_zero by (simp add: field_simps)
  then show ?thesis by (simp add: degrees_abs)
qed

lemma degrees_1: "\<bar>degrees 1\<bar> < 10 ^ 10"
proof -
  have "180 / pi \<le> 180 / 2" using pi_ge_two by (intro divide_left_mono) simp_all
  then show ?thesis by (simp add: degrees_abs)
qed

text \<open>
  Claim C3, as stated: a limit whose magnitude is below \<open>1e10\<close> is emitted. It fails for a
  revolute joint with the lower limit \<open>1e9\<close> radians: the code tests the value converted
  to degrees, about \<open>5.7e10\<close>, and omits the limit.
\<close>

theorem revolute_limit_tested_in_degrees:
  "\<bar>(10::real) ^ 9\<bar> < 10 ^ 10
   \<and> map_option jt_lower_limit
        (fst (create_joint ''/m''
                \<lparr>joint_name = ''j'', joint_type = ''revolute'', parent = ''a'', child = ''b'',
                 joint_pose = identity, axis = default_axis\<lparr>lower_limit := 10 ^ 9\<rparr>\<rparr>))
       = Some None"
  using degrees_1e9
  by (simp add: create_joint_def create_revolute_joint_def default_axis_def Let_def)

text \<open>
  Claim C3, amended: a revolute joint emits each limit converted to degrees, and omits
  it when the magnitude of the converted value is at least \<open>1e10\<close>; a prismatic joint
  emits each limit unchanged, and omits it when its magnitude is at least \<open>1e10\<close>; a joint
  of any other type emits no limit; a joint with the lower limit \<open>-1e16\<close> emits no
  lower limit.
\<close>

theorem joint_limits:
  "(joint_type j = ''revolute'' \<longrightarrow>
      map_option jt_lower_limit (fst (create_joint mp j)) =
        Some (if \<bar>degrees (lower_limit (axis j))\<bar> < 10 ^ 10
              then Some (degrees (lower_limit (axis j))) else None)
      \<and> map_option jt_upper_limit (fst (create_joint mp j)) =
        Some (if \<bar>degrees (upper_limit (axis j))\<bar> < 10 ^ 10
              then Some (degrees (upper_limit (axis j))) else None))
   \<and> (joint_type j = ''prismatic'' \<longrightarrow>
      map_option jt_lower_limit (fst (create_joint mp j)) =
        Some (if \<bar>lower_limit (axis j)\<bar> < 10 ^ 10 then Some (lower_limit (axis j)) else None)
      \<and> map_option jt_upper_limit (fst (create_joint mp j)) =
        Some (if \<bar>upper_limit (axis j)\<bar> < 10 ^ 10 then Some (upper_limit (axis j)) else None))
   \<and> (joint_type j \<noteq> ''revolute'' \<and> joint_type j \<noteq> ''prismatic'' \<longrightarrow>
      (\<forall>u. fst (create_joint mp j) = Some u
           \<longrightarrow> jt_lower_limit u = None \<and> jt_upper_limit u = None))
   \<and> (lower_limit (axis j) = - (10 ^ 16) \<longrightarrow>
      (\<forall>u. fst (create_joint mp j) = Some u \<longrightarrow> jt_lower_limit u = None))"
proof -
  have big: "lower_limit (axis j) = - (10 ^ 16)
             \<Longrightarrow> \<not> \<bar>degrees (lower_limit (axis j))\<bar> < 10 ^ 10"
    using degrees_ge [of "lower_limit (axis j)"] by simp
  show ?thesis
    using big
    by (auto simp: create_joint_def create_revolute_joint_def create_prismatic_joint_def
                   create_fixed_joint_def Let_def)
qed

theorem joint_limits_witness:
  "map_option jt_lower_limit
     (fst (create_joint ''/m''
             \<lparr>joint_name = ''j'', joint_type = ''revolute'', parent = ''a'', child = ''b'',
              joint_pose = identity, axis = default_axis\<lparr>upper_limit := 1\<rparr>\<rparr>)) = Some None
   \<and> map_option jt_upper_limit
     (fst (create_joint ''/m''
             \<lparr>joint_name = ''j'', joint_type = ''revolute'', parent = ''a'', child = ''b'',
              joint_pose = identity, axis = default_axis\<lparr>upper_limit := 1\<rparr>\<rparr>))
       = Some (Some (degrees 1))
   \<and> map_option jt_lower_limit
     (fst (create_joint ''/m''
             \<lparr>joint_name = ''s'', joint_type = ''prismatic'', parent = ''a'', child = ''b'',
              joint_pose = identity, axis = default_axis\<lparr>lower_limit := - 2\<rparr>\<rparr>))
       = Some (Some (- 2))
   \<and> map_option jt_upper_limit
     (fst (create_joint ''/m''
             \<lparr>joint_name = ''s'', joint_type = ''prismatic'', parent = ''a'', child = ''b'',
              joint_pose = identity, axis = default_axis\<lparr>lower_limit := - 2\<rparr>\<rparr>)) = Some None
   \<and> map_option jt_lower_limit
     (fst (create_joint ''/m''
             \<lparr>joint_name = ''f'', joint_type = ''fixed'', parent = ''a'', child = ''b'',
              joint_pose = identity, axis = default_axis\<lparr>lower_limit := - 2\<rparr>\<rparr>)) = Some None"
  using
    joint_limits [of "\<lparr>joint_name = ''j'', joint_type = ''revolute'', parent = ''a'',
              child = ''b'', joint_pose = identity, axis = default_axis\<lparr>upper_limit := 1\<rparr>\<rparr>"
              "''/m''"]
    joint_limits [of "\<lparr>joint_name = ''s'', joint_type = ''prismatic'', parent = ''a'',
              child = ''b'', joint_pose = identity, axis = default_axis\<lparr>lower_limit := - 2\<rparr>\<rparr>"
              "''/m''"]
    joint_limits [of "\<lparr>joint_name = ''f'', joint_type = ''fixed'', parent = ''a'',
              child = ''b'', joint_pose = identity, axis = default_axis\<lparr>lower_limit := - 2\<rparr>\<rparr>"
              "''/m''"]
    degrees_1 degrees_ge [of "- (10 ^ 16)"]
  by (simp add: default_axis_def create_joint_def create_fixed_joint_def Let_def)

section \<open>Properties of the pose algebra\<close>

text \<open>
  The quaternion extraction is defined on every matrix: in each branch the argument of
  the square root is at least 1 (so the divisor \<open>s\<close> is not zero), and the norm is
  positive.
\<close>

lemma sq_sum_pos:
  fixes w :: real
  assumes "w \<noteq> 0 \<or> x \<noteq> 0 \<or> y \<noteq> 0 \<or> z \<noteq> 0"
  shows "0 < w * w + x * x + y * y + z * z"
proof -
  have "0 \<le> w * w" "0 \<le> x * x" "0 \<le> y * y" "0 \<le> z * z" by simp_all
  moreover from assms have "0 < w * w \<or> 0 < x * x \<or> 0 < y * y \<or> 0 < z * z"
    by (auto simp: zero_less_mult_iff) 
  ultimately show ?thesis by linarith
qed

lemma quaternion_defined:
  fixes R :: matrix
  defines "a \<equiv> entry R 0 0" and "b \<equiv> entry R 1 1" and "c \<equiv> entry R 2 2"
  shows "(a + b + c > 0 \<longrightarrow> 1 < a + b + c + 1)
    \<and> (\<not> a + b + c > 0 \<and> a > b \<and> a > c \<longrightarrow> 1 \<le> 1 + a - b - c)
    \<and> (\<not> a + b + c > 0 \<and> \<not> (a > b \<and> a > c) \<and> b > c \<longrightarrow> 1 \<le> 1 + b - a - c)
    \<and> (\<not> a + b + c > 0 \<and> \<not> (a > b \<and> a > c) \<and> \<not> b > c \<longrightarrow> 1 \<le> 1 + c - a - b)
    \<and> (case quat_parts R of (w, x, y, z) \<Rightarrow> 0 < w * w + x * x + y * y + z * z)"
proof -
  have arith: "(a + b + c > 0 \<longrightarrow> 1 < a + b + c + 1)
    \<and> (\<not> a + b + c > 0 \<and> a > b \<and> a > c \<longrightarrow> 1 \<le> 1 + a - b - c)
    \<and> (\<not> a + b + c > 0 \<and> \<not> (a > b \<and> a > c) \<and> b > c \<longrightarrow> 1 \<le> 1 + b - a - c)
    \<and> (\<not> a + b + c > 0 \<and> \<not> (a > b \<and> a > c) \<and> \<not> b > c \<longrightarrow> 1 \<le> 1 + c - a - b)"
    by linarith
  have norm: "case quat_parts R of (w, x, y, z) \<Rightarrow> 0 < w * w + x * x + y * y + z * z"
  proof -
    consider (t) "a + b + c > 0"
      | (x) "\<not> a + b + c > 0" "a > b \<and> a > c"
      | (y) "\<not> a + b + c > 0" "\<not> (a > b \<and> a > c)" "b > c"
      | (z) "\<not> a + b + c > 0" "\<not> (a > b \<and> a > c)" "\<not> b > c"
      by blast
    then show ?thesis
    proof cases
      case t
      then have "0 < sqrt (a + b + c + 1)" by simp
      then have "(1 / 4) / ((1 / 2) / sqrt (a + b + c + 1)) \<noteq> 0" by simp
      with t show ?thesis
        unfolding quat_parts_def a_def b_def c_def Let_def
        by (simp only: if_True simp_thms prod.case) (rule sq_sum_pos, simp)
    next
      case x
      with arith have "0 < sqrt (1 + a - b - c)" by simp
      then have "(1 / 4) * (2 * sqrt (1 + a - b - c)) \<noteq> 0" by simp
      with x show ?thesis
        unfolding quat_parts_def a_def b_def c_def Let_def
        by (simp only: if_True if_False simp_thms prod.case) (rule sq_sum_pos, simp)
    next
      case y
      with arith have "0 < sqrt (1 + b - a - c)" by simp
      then have "(1 / 4) * (2 * sqrt (1 + b - a - c)) \<noteq> 0" by simp
      with y show ?thesis
        unfolding quat_parts_def a_def b_def c_def Let_def
        by (simp only: if_True if_False simp_thms prod.case) (rule sq_sum_pos, simp)
    next
      case z
      with arith have "0 < sqrt (1 + c - a - b)" by simp
      then have "(1 / 4) * (2 * sqrt (1 + c - a - b)) \<noteq> 0" by simp
      with z show ?thesis
        unfolding quat_parts_def a_def b_def c_def Let_def
        by (simp only: if_True if_False simp_thms prod.case) (rule sq_sum_pos, simp)
    qed
  qed
  from arith norm show ?thesis by blast
qed

lemma tan_scaled: "0 < c \<Longrightarrow> arctan ((c * sin a) / (c * cos a)) = arctan (tan a)"
  by (auto simp: tan_def)

lemma atan2_polar:
  assumes c: "0 < c" and lo: "- pi < a" and hi: "a \<le> pi"
  shows "atan2 (c * sin a) (c * cos a) = a"
proof -
  consider (mid) "- (pi / 2) < a" "a < pi / 2"
    | (top) "a = pi / 2"
    | (bot) "a = - (pi / 2)"
    | (left) "pi / 2 < a"
    | (right) "a < - (pi / 2)"
    by linarith
  then show ?thesis
  proof cases
    case mid
    then have "0 < cos a" by (rule cos_gt_zero_pi)
    with c have "0 < c * cos a" by simp
    then show ?thesis
      using c mid unfolding atan2_def by (simp only: if_True tan_scaled arctan_tan)
  next
    case top
    have "sin a = 1" "cos a = 0" unfolding top by simp_all
    with c show ?thesis unfolding top by (simp add: atan2_def)
  next
    case bot
    have "sin a = - 1" "cos a = 0" unfolding bot by simp_all
    with c show ?thesis unfolding bot by (simp add: atan2_def)
  next
    case left
    have "0 < cos (a - pi)" using left hi by (intro cos_gt_zero_pi) linarith+
    then have cneg: "cos a < 0" by simp
    have spos: "0 \<le> sin a" using left hi by (intro sin_ge_zero) linarith+
    have "tan a = tan ((a - pi) + pi)" by simp
    also have "\<dots> = tan (a - pi)" by (rule tan_periodic_pi)
    finally have "arctan (tan a) = a - pi"
      using left hi by (simp add: arctan_tan)
    moreover from c cneg have "c * cos a < 0" by (simp add: mult_pos_neg)
    moreover from c spos have "0 \<le> c * sin a" by simp
    ultimately show ?thesis
      using c unfolding atan2_def by (simp only: tan_scaled) simp
  next
    case right
    have "0 < cos (a + pi)" using right lo by (intro cos_gt_zero_pi) linarith+
    then have cneg: "cos a < 0" by simp
    have "0 < sin (- a)" using right lo by (intro sin_gt_zero) linarith+
    then have sneg: "sin a < 0" by simp
    have "arctan (tan (a + pi)) = a + pi"
      using right lo by (intro arctan_tan) linarith+
    then have "arctan (tan a) = a + pi" by simp
    moreover from c cneg have "c * cos a < 0" by (simp add: mult_pos_neg)
    moreover from c sneg have "\<not> 0 \<le> c * sin a" by (simp add: mult_pos_neg not_le)
    ultimately show ?thesis
      using c unfolding atan2_def by (simp only: tan_scaled) simp
  qed
qed

lemma matmul_identity: "matmul (to_matrix identity) (to_matrix p) = to_matrix p"
  by (simp add: matmul_def to_matrix_def identity_def entry_def Let_def)

lemma to_matrix_entries:
  "entry (to_matrix p) 0 3 = pos_x p" "entry (to_matrix p) 1 3 = pos_y p"
  "entry (to_matrix p) 2 3 = pos_z p"
  "entry (to_matrix p) 2 0 = - sin (pitch p)"
  "entry (to_matrix p) 2 1 = cos (pitch p) * sin (roll p)"
  "entry (to_matrix p) 2 2 = cos (pitch p) * cos (roll p)"
  "entry (to_matrix p) 1 0 = sin (yaw p) * cos (pitch p)"
  "entry (to_matrix p) 0 0 = cos (yaw p) * cos (pitch p)"
  "entry (to_matrix p) (Suc 0) 3 = pos_y p"
  "entry (to_matrix p) 2 (Suc 0) = cos (pitch p) * sin (roll p)"
  "entry (to_matrix p) (Suc 0) 0 = sin (yaw p) * cos (pitch p)"
  by (simp_all add: to_matrix_def entry_def Let_def)

lemma clip_sin: "clip (- sin v) (- 1) 1 = - sin v"
proof -
  have "- 1 \<le> - sin v" "- sin v \<le> 1"
    using sin_le_one [of v] sin_ge_minus_one [of v] by linarith+
  then show ?thesis unfolding clip_def by (simp only: max_absorb1 min_absorb1)
qed

text \<open>
  Claim C2, amended: for every pose whose roll and yaw lie in \<open>(-pi, pi]\<close>, whose pitch
  lies in \<open>[-pi/2, pi/2]\<close> and whose pitch has a cosine above \<open>1e-6\<close> (no gimbal lock),
  composing the identity pose with it gives the pose back. On reals the equality is exact.
\<close>

theorem compose_identity_principal:
  assumes "- pi < roll p" "roll p \<le> pi" "- pi < yaw p" "yaw p \<le> pi"
    and "- (pi / 2) \<le> pitch p" "pitch p \<le> pi / 2" "1 / 10 ^ 6 < cos (pitch p)"
  shows "compose identity p = p"
proof -
  have cp: "0 < cos (pitch p)" using assms(7) by (rule less_trans [rotated]) simp
  have pitch': "arcsin (- clip (entry (to_matrix p) 2 0) (- 1) 1) = pitch p"
    using assms(5,6) by (simp add: to_matrix_entries clip_sin arcsin_sin)
  have r: "atan2 (entry (to_matrix p) 2 1) (entry (to_matrix p) 2 2) = roll p"
    using atan2_polar [OF cp assms(1,2)] by (simp add: to_matrix_entries)
  have y: "atan2 (entry (to_matrix p) 1 0) (entry (to_matrix p) 0 0) = yaw p"
    using atan2_polar [OF cp assms(3,4)] by (simp add: to_matrix_entries mult.commute)
  have "from_matrix (to_matrix p) = p"
    unfolding from_matrix_def pitch' Let_def r y
    using assms(7) cp by (simp add: to_matrix_entries)
  then show ?thesis by (simp add: compose_def matmul_identity)
qed

theorem compose_identity_principal_witness:
  "compose identity \<lparr>pos_x = 1, pos_y = 2, pos_z = 3, roll = 1 / 2, pitch = 0, yaw = - 1\<rparr>
   = \<lparr>pos_x = 1, pos_y = 2, pos_z = 3, roll = 1 / 2, pitch = 0, yaw = - 1\<rparr>"
  using compose_identity_principal
          [of "\<lparr>pos_x = 1, pos_y = 2, pos_z = 3, roll = 1 / 2, pitch = 0, yaw = - 1\<rparr>"]
        pi_ge_two
  by simp

text \<open>
  Claim C2, as stated: for every pose \<open>p\<close>, \<open>compose(identity, p)\<close> equals \<open>p\<close> within
  floating tolerance. It fails for the pose with yaw 6 and all other fields 0:
  \<open>from_matrix\<close> returns the yaw in \<open>(-pi, pi]\<close>, here \<open>6 - 2 pi\<close>, which differs from 6
  by more than 4.
\<close>

theorem compose_identity_wraps_yaw:
  "yaw (compose identity \<lparr>pos_x = 0, pos_y = 0, pos_z = 0, roll = 0, pitch = 0, yaw = 6\<rparr>)
     = 6 - 2 * pi
   \<and> \<bar>yaw (compose identity \<lparr>pos_x = 0, pos_y = 0, pos_z = 0, roll = 0, pitch = 0, yaw = 6\<rparr>)
        - yaw \<lparr>pos_x = 0, pos_y = 0, pos_z = 0, roll = 0, pitch = 0, yaw = 6\<rparr>\<bar> \<ge> 4"
proof -
  let ?p = "\<lparr>pos_x = 0, pos_y = 0, pos_z = 0, roll = 0, pitch = 0, yaw = 6\<rparr>"
  have s: "sin (6 - 2 * pi) = sin (6::real)" and c: "cos (6 - 2 * pi) = cos (6::real)"
    using sin_periodic [of "6 - 2 * pi"] cos_periodic [of "6 - 2 * pi"] by simp_all
  have "atan2 (1 * sin (6 - 2 * pi)) (1 * cos (6 - 2 * pi)) = 6 - 2 * pi"
    using pi_ge_two pi_less_4 by (intro atan2_polar) simp_all
  then have a: "atan2 (sin 6) (cos 6) = 6 - 2 * pi" by (simp add: s c)
  have "yaw (from_matrix (to_matrix ?p)) = 6 - 2 * pi"
    by (simp add: from_matrix_def to_matrix_entries clip_def a)
  then have y: "yaw (compose identity ?p) = 6 - 2 * pi"
    by (simp add: compose_def matmul_identity)
  show ?thesis using y pi_ge_two by simp
qed

section \<open>Properties of the mesh conversions of a run\<close>

lemma invocations_of_append [simp]:
  "invocations_of a (xs @ ys) = invocations_of a xs + invocations_of a ys"
  by (simp add: invocations_of_def)

lemma invocations_of_Nil [simp]: "invocations_of a [] = 0"
  by (simp add: invocations_of_def)

lemma invocations_of_Cons [simp]:
  "invocations_of a (e # es) = (if is_run_of a e then 1 else 0) + invocations_of a es"
  by (simp add: invocations_of_def)

lemma emit_simps [simp]:
  "trace (emit es st) = trace st @ es"
  "mc_cache (emit es st) = mc_cache st"
  "material_cache (emit es st) = material_cache st"
  "counter (emit es st) = counter st"
  by (simp_all add: emit_def)

lemma invocations_copy [simp]:
  "invocations (tr @ [CopyAdjacentTextures a b]) = invocations tr"
  by (simp add: invocations_def)

lemma mc_convert_missing:
  "\<not> path_exists ev (abspath ev q) \<Longrightarrow> mc_convert ev md st q = (Inl FileNotFoundError, st)"
  by (simp add: mc_convert_def Let_def)

lemma mc_convert_hit:
  "path_exists ev (abspath ev q) \<Longrightarrow> map_of (mc_cache st) (abspath ev q) = Some u
   \<Longrightarrow> mc_convert ev md st q = (Inr u, st)"
  by (simp add: mc_convert_def Let_def)

lemma mc_convert_unsupported:
  "path_exists ev (abspath ev q) \<Longrightarrow> map_of (mc_cache st) (abspath ev q) = None
   \<Longrightarrow> lower (snd (splitext (abspath ev q))) \<notin> set SUPPORTED_MESH_FORMATS
   \<Longrightarrow> mc_convert ev md st q = (Inl RuntimeError, st)"
  by (simp add: mc_convert_def Let_def)

lemma mc_convert_copy_failed:
  "path_exists ev (abspath ev q) \<Longrightarrow> map_of (mc_cache st) (abspath ev q) = None
   \<Longrightarrow> lower (snd (splitext (abspath ev q))) \<in> set SUPPORTED_MESH_FORMATS
   \<Longrightarrow> \<not> copy_adjacent_ok ev (abspath ev q)
   \<Longrightarrow> mc_convert ev md st q
       = (Inl OSError, emit [CopyAdjacentTextures (abspath ev q) False] st)"
  by (simp add: mc_convert_def Let_def)

lemma mc_convert_failed:
  "path_exists ev (abspath ev q) \<Longrightarrow> map_of (mc_cache st) (abspath ev q) = None
   \<Longrightarrow> lower (snd (splitext (abspath ev q))) \<in> set SUPPORTED_MESH_FORMATS
   \<Longrightarrow> copy_adjacent_ok ev (abspath ev q)
   \<Longrightarrow> \<not> conversion_ok ev (invocations (trace st)) (abspath ev q)
           (usd_target md st (abspath ev q))
   \<Longrightarrow> mc_convert ev md st q
       = (Inl RuntimeError,
          emit [CopyAdjacentTextures (abspath ev q) True,
                RunConversion (abspath ev q) (usd_target md st (abspath ev q)) False] st)"
  by (simp add: mc_convert_def Let_def usd_target_def emit_def)

lemma mc_convert_converted:
  "path_exists ev (abspath ev q) \<Longrightarrow> map_of (mc_cache st) (abspath ev q) = None
   \<Longrightarrow> lower (snd (splitext (abspath ev q))) \<in> set SUPPORTED_MESH_FORMATS
   \<Longrightarrow> copy_adjacent_ok ev (abspath ev q)
   \<Longrightarrow> conversion_ok ev (invocations (trace st)) (abspath ev q)
           (usd_target md st (abspath ev q))
   \<Longrightarrow> mc_convert ev md st q
       = (Inr (usd_target md st (abspath ev q)),
          (emit [CopyAdjacentTextures (abspath ev q) True,
                 RunConversion (abspath ev q) (usd_target md st (abspath ev q)) True] st)
            \<lparr>mc_cache := AList.update (abspath ev q) (usd_target md st (abspath ev q))
                            (mc_cache st)\<rparr>)"
  by (simp add: mc_convert_def Let_def usd_target_def emit_def)

lemma mc_convert_cases [consumes 1, case_names missing hit unsupported copy_failed failed converted]:
  assumes run: "mc_convert ev md st q = (r, st')"
  obtains
    (missing) "\<not> path_exists ev (abspath ev q)" "r = Inl FileNotFoundError" "st' = st"
  | (hit) u where "path_exists ev (abspath ev q)" "map_of (mc_cache st) (abspath ev q) = Some u"
      "r = Inr u" "st' = st"
  | (unsupported) "path_exists ev (abspath ev q)" "map_of (mc_cache st) (abspath ev q) = None"
      "lower (snd (splitext (abspath ev q))) \<notin> set SUPPORTED_MESH_FORMATS"
      "r = Inl RuntimeError" "st' = st"
  | (copy_failed) "path_exists ev (abspath ev q)" "map_of (mc_cache st) (abspath ev q) = None"
      "lower (snd (splitext (abspath ev q))) \<in> set SUPPORTED_MESH_FORMATS"
      "\<not> copy_adjacent_ok ev (abspath ev q)"
      "r = Inl OSError" "st' = emit [CopyAdjacentTextures (abspath ev q) False] st"
  | (failed) "path_exists ev (abspath ev q)" "map_of (mc_cache st) (abspath ev q) = None"
      "lower (snd (splitext (abspath ev q))) \<in> set SUPPORTED_MESH_FORMATS"
      "copy_adjacent_ok ev (abspath ev q)"
      "\<not> conversion_ok ev (invocations (trace st)) (abspath ev q)
           (usd_target md st (abspath ev q))"
      "r = Inl RuntimeError"
      "st' = emit [CopyAdjacentTextures (abspath ev q) True,
                   RunConversion (abspath ev q) (usd_target md st (abspath ev q)) False] st"
  | (converted) "path_exists ev (abspath ev q)"
      "map_of (mc_cache st) (abspath ev q) = None"
      "lower (snd (splitext (abspath ev q))) \<in> set SUPPORTED_MESH_FORMATS"
      "copy_adjacent_ok ev (abspath ev q)"
      "conversion_ok ev (invocations (trace st)) (abspath ev q)
         (usd_target md st (abspath ev q))"
      "r = Inr (usd_target md st (abspath ev q))"
      "st' = (emit [CopyAdjacentTextures (abspath ev q) True,
                    RunConversion (abspath ev q) (usd_target md st (abspath ev q)) True] st)
               \<lparr>mc_cache := AList.update (abspath ev q) (usd_target md st (abspath ev q))
                               (mc_cache st)\<rparr>"
proof (cases "path_exists ev (abspath ev q)")
  case False
  from run [unfolded mc_convert_missing [OF False, of md st]]
  have "r = Inl FileNotFoundError" "st' = st" by simp_all
  then show ?thesis by (rule missing [OF False])
next
  case ex: True
  show ?thesis
  proof (cases "map_of (mc_cache st) (abspath ev q)")
    case (Some u)
    from run [unfolded mc_convert_hit [OF ex Some, of md]] have "r = Inr u" "st' = st" by simp_all
    then show ?thesis by (rule hit [OF ex Some])
  next
    case miss: None
    show ?thesis
    proof (cases "lower (snd (splitext (abspath ev q))) \<in> set SUPPORTED_MESH_FORMATS")
      case False
      from run [unfolded mc_convert_unsupported [OF ex miss False, of md]]
      have "r = Inl RuntimeError" "st' = st" by simp_all
      then show ?thesis by (rule unsupported [OF ex miss False])
    next
      case sup: True
      show ?thesis
      proof (cases "copy_adjacent_ok ev (abspath ev q)")
        case False
        from run [unfolded mc_convert_copy_failed [OF ex miss sup False, of md]]
        have "r = Inl OSError" "st' = emit [CopyAdjacentTextures (abspath ev q) False] st"
          by simp_all
        then show ?thesis by (rule copy_failed [OF ex miss sup False])
      next
        case cp: True
        show ?thesis
        proof (cases "conversion_ok ev (invocations (trace st)) (abspath ev q)
                        (usd_target md st (abspath ev q))")
          case False
          from run [unfolded mc_convert_failed [OF ex miss sup cp False]]
          have "r = Inl RuntimeError"
            "st' = emit [CopyAdjacentTextures (abspath ev q) True,
                   RunConversion (abspath ev q) (usd_target md st (abspath ev q)) False] st"
            by simp_all
          then show ?thesis by (rule failed [OF ex miss sup cp False])
        next
          case True
          from run [unfolded mc_convert_converted [OF ex miss sup cp True]]
          have "r = Inr (usd_target md st (abspath ev q))"
            "st' = (emit [CopyAdjacentTextures (abspath ev q) True,
                    RunConversion (abspath ev q) (usd_target md st (abspath ev q)) True] st)
               \<lparr>mc_cache := AList.update (abspath ev q) (usd_target md st (abspath ev q))
                               (mc_cache st)\<rparr>"
            by simp_all
          then show ?thesis by (rule converted [OF ex miss sup cp True])
        qed
      qed
    qed
  qed
qed

lemma mc_convert_trace:
  assumes "mc_convert ev md st q = (r, st')"
  shows "\<exists>es. trace st' = trace st @ es"
  using assms by (cases rule: mc_convert_cases) simp_all

lemma mc_convert_other:
  assumes "mc_convert ev md st q = (r, st')" and "abspath ev q \<noteq> a"
  shows "map_of (mc_cache st') a = map_of (mc_cache st) a
         \<and> invocations_of a (trace st') = invocations_of a (trace st)"
  using assms by (cases rule: mc_convert_cases) (simp_all add: update_conv')




lemma keeps_refl [simp]: "keeps a u st st"
  by (simp add: keeps_def)


lemma is_run_of_set_xform [simp]: "\<not> is_run_of a (set_xform cfg p pose sc)"
  by (simp add: set_xform_def)
















lemma create_joint_events_no_run: "\<forall>e \<in> set (create_joint_events mp j). \<not> is_run_of a e"
  by (auto simp: create_joint_events_def log_events_def
           split: prod.splits option.splits log_entry.splits)

lemma build_split:
  "build ev cfg md st model =
     build_finish cfg
       (foldl (build_link ev cfg md (''/'' @ sanitize_usd_name (model_name model) @ ''/Looks'')
                 (''/'' @ sanitize_usd_name (model_name model)))
          (build_start cfg st model) (links model)) model"
  by (simp add: build_def build_start_def build_finish_def Let_def)





lemma extends_refl [simp]: "extends st st"
  by (simp add: extends_def)

lemma extends_trans: "extends st st1 \<Longrightarrow> extends st1 st2 \<Longrightarrow> extends st st2"
  by (auto simp: extends_def)

lemma extends_emit [simp]: "extends st (emit es st)"
  by (simp add: extends_def)

lemma extends_emit_after: "extends st st' \<Longrightarrow> extends st (emit es st')"
  by (rule extends_trans [OF _ extends_emit])

lemma extends_fields:
  "extends st st' \<Longrightarrow> extends st (st'\<lparr>material_cache := mc\<rparr>)"
  "extends st st' \<Longrightarrow> extends st (st'\<lparr>counter := n\<rparr>)"
  by (simp_all add: extends_def)

lemma extends_mc_convert: "mc_convert ev md st q = (r, st') \<Longrightarrow> extends st st'"
  unfolding extends_def by (rule mc_convert_trace)

lemma extends_copy_texture: "extends st (snd (copy_texture ev md st src))"
  by (simp add: copy_texture_def Let_def)

lemma extends_create_material: "extends st (snd (create_material ev md looks st m h))"
proof (cases "map_of (material_cache st) (material_hash ev m)")
  case (Some p)
  then show ?thesis by (simp add: create_material_def Let_def)
next
  case None
  let ?st1 = "st\<lparr>counter := counter st + 1\<rparr>"
  have k1: "extends st ?st1" by (simp add: extends_fields(2))
  have k2: "extends st (snd (copy_texture ev md ?st1 src))" for src
    by (rule extends_trans [OF k1 extends_copy_texture])
  show ?thesis
    using None k1 k2
    by (auto simp: create_material_def Let_def case_prod_beta split: option.splits
             intro!: extends_fields(1) extends_emit_after)
qed

lemma extends_build_geometry:
  assumes "build_geometry ev cfg md st path g pose = (r, st')"
  shows "extends st st'"
proof (cases "mesh g")
  case None
  with assms show ?thesis
    by (auto simp: build_geometry_def build_box_def build_cylinder_def build_sphere_def
             build_capsule_def split: option.splits)
next
  case (Some m)
  with assms have b: "build_mesh_reference ev cfg md st path m pose = (r, st')"
    by (simp add: build_geometry_def)
  show ?thesis
  proof (cases "resolved_path m = [] \<or> \<not> path_exists ev (resolved_path m)")
    case True
    with b show ?thesis by (auto simp: build_mesh_reference_def)
  next
    case False
    obtain r1 st1 where c: "mc_convert ev md st (resolved_path m) = (r1, st1)"
      by (cases "mc_convert ev md st (resolved_path m)")
    from extends_mc_convert [OF c] have k: "extends st st1" .
    from b False c show ?thesis
      by (auto simp: build_mesh_reference_def split: sum.splits
               intro!: extends_emit_after [OF k])
  qed
qed

lemma extends_build_visual: "extends st (build_visual ev cfg md looks par st v)"
proof (cases "vis_geometry v")
  case None
  then show ?thesis by (simp add: build_visual_def)
next
  case (Some g)
  let ?path = "par @ ''/'' @ sanitize_usd_name (vis_name v)"
  obtain r st1 where b: "build_geometry ev cfg md st ?path g (vis_pose v) = (r, st1)"
    by (cases "build_geometry ev cfg md st ?path g (vis_pose v)")
  from extends_build_geometry [OF b] have k1: "extends st st1" .
  have k2: "extends st (snd (create_material ev md looks st1 m h))" for m h
    by (rule extends_trans [OF k1 extends_create_material])
  show ?thesis
    using Some b k1 k2
    by (auto simp: build_visual_def Let_def assign_material_def case_prod_beta
             split: option.splits intro!: extends_emit_after)
qed

lemma extends_build_collision: "extends st (build_collision ev cfg md par st c)"
proof (cases "col_geometry c")
  case None
  then show ?thesis by (simp add: build_collision_def)
next
  case (Some g)
  let ?path = "par @ ''/'' @ sanitize_usd_name (col_name c)"
  obtain r st1 where b: "build_geometry ev cfg md st ?path g (col_pose c) = (r, st1)"
    by (cases "build_geometry ev cfg md st ?path g (col_pose c)")
  from extends_build_geometry [OF b] have k1: "extends st st1" .
  show ?thesis
    using Some b k1
    by (auto simp: build_collision_def Let_def apply_collision_def
             split: option.splits intro!: extends_emit_after)
qed

lemma extends_foldl:
  assumes "\<And>s x. extends s (f s x)"
  shows "extends st (foldl f st xs)"
proof (induction xs arbitrary: st)
  case Nil
  show ?case by simp
next
  case (Cons x xs)
  from extends_trans [OF assms [of st x] Cons.IH [of "f st x"]] show ?case by simp
qed

lemma extends_build_link: "extends st (build_link ev cfg md looks mp st l)"
proof -
  let ?lp = "mp @ ''/'' @ sanitize_usd_name (link_name l)"
  let ?st1 = "emit [DefineXform ?lp, set_xform cfg ?lp (link_pose l) None] st"
  let ?st2 = "if include_physics cfg then apply_rigid_body ?lp l ?st1 else ?st1"
  let ?st3 = "if visuals l \<noteq> []
              then foldl (build_visual ev cfg md looks (?lp @ ''/visuals''))
                     (emit [DefineScope (?lp @ ''/visuals'')] ?st2) (visuals l)
              else ?st2"
  have k1: "extends st ?st1" by simp
  have "extends ?st1 ?st2" by (simp add: apply_rigid_body_def)
  with k1 have k2: "extends st ?st2" by (rule extends_trans)
  have "extends ?st2 ?st3"
    by (auto intro!: extends_trans [OF extends_emit extends_foldl] extends_build_visual)
  with k2 have k3: "extends st ?st3" by (rule extends_trans)
  have "extends ?st3 (build_link ev cfg md looks mp st l)"
    unfolding build_link_def Let_def
    by (auto intro!: extends_trans [OF extends_emit extends_foldl] extends_build_collision)
  with k3 show ?thesis by (rule extends_trans)
qed

lemma extends_build_finish: "extends st (build_finish cfg st model)"
proof -
  have "extends st (foldl (\<lambda>s j. emit (create_joint_events mp j) s) st js)" for mp js
    by (rule extends_foldl) simp
  then show ?thesis
    by (auto simp: build_finish_def intro!: extends_emit_after)
qed

lemma build_trace_starts:
  "\<exists>es. trace (build ev cfg md st model)
         = trace st @ CreateStage (output_path cfg) (if up_axis cfg = ''Z'' then ''Z'' else ''Y'')
                      # es"
proof -
  let ?f = "build_link ev cfg md (''/'' @ sanitize_usd_name (model_name model) @ ''/Looks'')
                 (''/'' @ sanitize_usd_name (model_name model))"
  obtain es0 where s: "trace (build_start cfg st model)
      = trace st @ CreateStage (output_path cfg) (if up_axis cfg = ''Z'' then ''Z'' else ''Y'')
                   # es0"
    by (cases "include_physics cfg") (auto simp: build_start_def Let_def setup_articulation_root_def emit_def)
  have "extends (build_start cfg st model) (build ev cfg md st model)"
    unfolding build_split
    by (intro extends_trans [OF extends_foldl extends_build_finish] extends_build_link)
  then obtain es1 where "trace (build ev cfg md st model)
      = trace (build_start cfg st model) @ es1" by (auto simp: extends_def)
  with s show ?thesis by simp
qed

lemma pre_pass_block_no_stage: "pre_pass_block ev q es \<Longrightarrow> e \<in> set es \<Longrightarrow> \<not> is_create_stage e"
  by (auto simp: pre_pass_block_def)

lemma pre_pass_stage:
  "(\<And>e. e \<in> set xs \<Longrightarrow> \<not> is_create_stage e) \<Longrightarrow> pre_pass (xs @ CreateStage a b # es) = xs"
  by (induction xs) (simp_all add: pre_pass_def)

lemma blocks_no_stage:
  "list_all2 (pre_pass_block ev) ps blocks \<Longrightarrow> e \<in> set (concat blocks) \<Longrightarrow> \<not> is_create_stage e"
  by (induction rule: list_all2_induct) (auto dest: pre_pass_block_no_stage)

lemma preconvert_blocks:
  "preconvert ev md ps (st, c) = (st', c')
   \<Longrightarrow> \<exists>blocks. list_all2 (pre_pass_block ev) ps blocks \<and> trace st' = trace st @ concat blocks"
proof (induction ps arbitrary: st c)
  case Nil
  then show ?case by simp
next
  case (Cons q ps)
  have "\<exists>es st2 c2. pre_pass_block ev q es \<and> trace st2 = trace st @ es
          \<and> preconvert ev md ps (st2, c2) = (st', c')"
  proof (cases "path_exists ev q")
    case False
    with Cons.prems have "preconvert ev md ps (st, c) = (st', c')" by simp
    then show ?thesis by (intro exI [of _ "[]"] exI [of _ st] exI [of _ c])
        (simp add: pre_pass_block_def)
  next
    case True
    obtain r st1 where run: "mc_convert ev md st q = (r, st1)" by (cases "mc_convert ev md st q")
    define st2 where "st2 = (case r of Inr u \<Rightarrow> st1
                             | Inl e \<Rightarrow> emit [Logged ERROR (''  Failed to convert '' @ q)] st1)"
    define c2 where "c2 = (case r of Inr u \<Rightarrow> c + 1 | Inl e \<Rightarrow> c)"
    from Cons.prems True run have rest: "preconvert ev md ps (st2, c2) = (st', c')"
      by (simp add: st2_def c2_def split: sum.splits)
    have "\<exists>es. pre_pass_block ev q es \<and> trace st2 = trace st @ es"
      using run by (cases rule: mc_convert_cases) (simp_all add: st2_def pre_pass_block_def)
    with rest show ?thesis by blast
  qed
  then obtain es st2 c2 where b: "pre_pass_block ev q es" and t: "trace st2 = trace st @ es"
    and rest: "preconvert ev md ps (st2, c2) = (st', c')" by blast
  from Cons.IH [OF rest] obtain blocks where
    bl: "list_all2 (pre_pass_block ev) ps blocks" and t': "trace st' = trace st2 @ concat blocks"
    by blast
  from b bl t t' show ?case
    by (intro exI [of _ "es # blocks"]) simp
qed

lemma pre_pass_preconvert:
  "pre_pass (trace (snd (convert_model ev cfg model)))
   = trace (fst (preconvert ev (mesh_output_dir (dirname (output_path cfg)))
                   (sorted_mesh_paths (include_collision cfg) model) (init_state, 0)))"
proof -
  let ?md = "mesh_output_dir (dirname (output_path cfg))"
  let ?ps = "sorted_mesh_paths (include_collision cfg) model"
  obtain st1 n where pre: "preconvert ev ?md ?ps (init_state, 0) = (st1, n)"
    by (cases "preconvert ev ?md ?ps (init_state, 0)")
  have final: "snd (convert_model ev cfg model) = build ev cfg ?md st1 model"
    using pre by (simp add: convert_model_def Let_def)
  from preconvert_blocks [OF pre] obtain blocks where
    bl: "list_all2 (pre_pass_block ev) ?ps blocks" and t: "trace st1 = concat blocks"
    by (auto simp: init_state_def)
  from blocks_no_stage [OF bl] have ns: "\<not> is_create_stage e" if "e \<in> set (concat blocks)" for e
    using that by blast
  obtain es where "trace (build ev cfg ?md st1 model)
      = trace st1 @ CreateStage (output_path cfg) (if up_axis cfg = ''Z'' then ''Z'' else ''Y'') # es"
    using build_trace_starts by blast
  with t pre_pass_stage [of "concat blocks"] ns
  have "pre_pass (trace (build ev cfg ?md st1 model)) = trace st1"
    by simp
  with final pre show ?thesis by simp
qed




lemma error_logs_append [simp]: "error_logs (xs @ ys) = error_logs xs + error_logs ys"
  by (simp add: error_logs_def)

lemma quiet_refl [simp]: "quiet a st st"
  by (simp add: quiet_def)

lemma quiet_trans: "quiet a st st1 \<Longrightarrow> quiet a st1 st2 \<Longrightarrow> quiet a st st2"
  by (fastforce simp: quiet_def)

lemma quiet_emit: "\<forall>e \<in> set es. \<not> is_run_of a e \<Longrightarrow> quiet a st (emit es st)"
  by (simp add: quiet_def)

lemma quiet_emit_after:
  "\<forall>e \<in> set es. \<not> is_run_of a e \<Longrightarrow> quiet a st st' \<Longrightarrow> quiet a st (emit es st')"
  by (rule quiet_trans [OF _ quiet_emit])

lemma quiet_fields:
  "quiet a st st' \<Longrightarrow> quiet a st (st'\<lparr>material_cache := mc\<rparr>)"
  "quiet a st st' \<Longrightarrow> quiet a st (st'\<lparr>counter := n\<rparr>)"
  by (simp_all add: quiet_def)

lemma no_run_invocations: "\<forall>e \<in> set es. \<not> is_run_of a e \<Longrightarrow> invocations_of a es = 0"
  by (simp add: invocations_of_def filter_empty_conv)

lemma quiet_attempts: "quiet a st st' \<Longrightarrow> attempts a n st \<Longrightarrow> attempts a n st'"
  by (auto simp: quiet_def attempts_def no_run_invocations)

lemma quiet_foldl:
  assumes "\<And>s x. quiet a s (f s x)"
  shows "quiet a st (foldl f st xs)"
proof (induction xs arbitrary: st)
  case Nil
  show ?case by simp
next
  case (Cons x xs)
  from quiet_trans [OF assms [of st x] Cons.IH [of "f st x"]] show ?case by simp
qed

lemma quiet_copy_texture: "quiet a st (snd (copy_texture ev md st src))"
  by (simp add: copy_texture_def Let_def quiet_emit)

lemma quiet_create_material: "quiet a st (snd (create_material ev md looks st m h))"
proof (cases "map_of (material_cache st) (material_hash ev m)")
  case (Some p)
  then show ?thesis by (simp add: create_material_def Let_def)
next
  case None
  let ?st1 = "st\<lparr>counter := counter st + 1\<rparr>"
  have k1: "quiet a st ?st1" by (simp add: quiet_fields(2))
  have k2: "quiet a st (snd (copy_texture ev md ?st1 src))" for src
    by (rule quiet_trans [OF k1 quiet_copy_texture])
  show ?thesis
    using None k1 k2
    by (auto simp: create_material_def Let_def split: option.splits prod.splits
             intro!: quiet_fields(1) quiet_emit_after)
       (metis snd_conv)+
qed

lemma mc_convert_broken:
  assumes br: "mesh_broken ev a" and none: "map_of (mc_cache st) a = None"
    and run: "mc_convert ev md st q = (r, st')"
  shows "map_of (mc_cache st') a = None
    \<and> invocations_of a (trace st') = invocations_of a (trace st) + (if abspath ev q = a then 1 else 0)
    \<and> error_logs (trace st') = error_logs (trace st)
    \<and> (abspath ev q = a \<longrightarrow> (\<exists>e. r = Inl e))"
proof (cases "abspath ev q = a")
  case True
  from br none True have "mc_convert ev md st q
       = (Inl RuntimeError,
          emit [CopyAdjacentTextures (abspath ev q) True,
                RunConversion (abspath ev q) (usd_target md st (abspath ev q)) False] st)"
    by (intro mc_convert_failed) (simp_all add: mesh_broken_def)
  with run none True show ?thesis by (auto simp: error_logs_def)
next
  case False
  have "error_logs (trace st') = error_logs (trace st)"
    using run by (cases rule: mc_convert_cases) (simp_all add: error_logs_def)
  with mc_convert_other [OF run False] none False show ?thesis by simp
qed

lemma preconvert_broken:
  assumes br: "mesh_broken ev a"
  shows "attempts a n st \<Longrightarrow> preconvert ev md ps (st, c) = (st', c')
    \<Longrightarrow> attempts a (n + length (filter (\<lambda>q. path_exists ev q \<and> abspath ev q = a) ps)) st'"
proof (induction ps arbitrary: st c n)
  case Nil
  then show ?case by simp
next
  case (Cons q ps)
  show ?case
  proof (cases "path_exists ev q")
    case False
    with Cons.prems(2) have "preconvert ev md ps (st, c) = (st', c')" by simp
    from Cons.IH [OF Cons.prems(1) this] False show ?thesis by simp
  next
    case True
    obtain r st1 where run: "mc_convert ev md st q = (r, st1)" by (cases "mc_convert ev md st q")
    define st2 where "st2 = (case r of Inr u \<Rightarrow> st1
                             | Inl e \<Rightarrow> emit [Logged ERROR (''  Failed to convert '' @ q)] st1)"
    define c2 where "c2 = (case r of Inr u \<Rightarrow> c + 1 | Inl e \<Rightarrow> c)"
    from Cons.prems(2) True run have rest: "preconvert ev md ps (st2, c2) = (st', c')"
      by (simp add: st2_def c2_def split: sum.splits)
    from Cons.prems(1) have none: "map_of (mc_cache st) a = None" by (simp add: attempts_def)
    from mc_convert_broken [OF br none run] Cons.prems(1)
    have "attempts a (n + (if abspath ev q = a then 1 else 0)) st2"
      by (auto simp: attempts_def st2_def error_logs_def split: sum.splits)
    from Cons.IH [OF this rest] True show ?thesis
      by (cases "abspath ev q = a") (simp_all add: add.assoc)
  qed
qed

lemma build_geometry_broken:
  assumes br: "mesh_broken ev a" and at: "attempts a n st"
    and run: "build_geometry ev cfg md st path g pose = (r, st')"
  shows "attempts a (n + length (filter (tried ev a) (geometry_mesh_path (Some g)))) st'"
proof (cases "mesh g")
  case None
  with run have "quiet a st st'"
    by (auto simp: build_geometry_def build_box_def build_cylinder_def build_sphere_def
             build_capsule_def quiet_emit split: option.splits)
  from quiet_attempts [OF this at] None show ?thesis
    by (simp add: geometry_mesh_path_def)
next
  case (Some m)
  with run have b: "build_mesh_reference ev cfg md st path m pose = (r, st')"
    by (simp add: build_geometry_def)
  show ?thesis
  proof (cases "resolved_path m = [] \<or> \<not> path_exists ev (resolved_path m)")
    case True
    with b have "quiet a st st'" by (auto simp: build_mesh_reference_def quiet_emit)
    from quiet_attempts [OF this at] Some True show ?thesis
      by (auto simp: geometry_mesh_path_def tried_def)
  next
    case False
    obtain r1 st1 where c: "mc_convert ev md st (resolved_path m) = (r1, st1)"
      by (cases "mc_convert ev md st (resolved_path m)")
    from at have none: "map_of (mc_cache st) a = None" by (simp add: attempts_def)
    from mc_convert_broken [OF br none c] at b c False Some show ?thesis
      by (auto simp: build_mesh_reference_def attempts_def geometry_mesh_path_def tried_def
                     error_logs_def no_run_invocations split: sum.splits)
  qed
qed

lemma build_visual_broken:
  assumes br: "mesh_broken ev a" and at: "attempts a n st"
  shows "attempts a (n + length (filter (tried ev a) (geometry_mesh_path (vis_geometry v))))
           (build_visual ev cfg md looks par st v)"
proof (cases "vis_geometry v")
  case None
  with at show ?thesis by (simp add: build_visual_def geometry_mesh_path_def)
next
  case (Some g)
  let ?path = "par @ ''/'' @ sanitize_usd_name (vis_name v)"
  obtain r st1 where b: "build_geometry ev cfg md st ?path g (vis_pose v) = (r, st1)"
    by (cases "build_geometry ev cfg md st ?path g (vis_pose v)")
  from build_geometry_broken [OF br at b] Some
  have at1: "attempts a (n + length (filter (tried ev a) (geometry_mesh_path (vis_geometry v)))) st1"
    by simp
  have "quiet a st1 (build_visual ev cfg md looks par st v)"
  proof -
    have "quiet a st1 (snd (create_material ev md looks st1 m h))" for m h
      by (rule quiet_create_material)
    then show ?thesis
      using Some b
      by (auto simp: build_visual_def Let_def assign_material_def
               split: option.splits prod.splits intro!: quiet_emit_after)
         (metis snd_conv)+
  qed
  from quiet_attempts [OF this at1] show ?thesis .
qed

lemma build_collision_broken:
  assumes br: "mesh_broken ev a" and at: "attempts a n st"
  shows "attempts a (n + length (filter (tried ev a) (geometry_mesh_path (col_geometry c))))
           (build_collision ev cfg md par st c)"
proof (cases "col_geometry c")
  case None
  with at show ?thesis by (simp add: build_collision_def geometry_mesh_path_def)
next
  case (Some g)
  let ?path = "par @ ''/'' @ sanitize_usd_name (col_name c)"
  obtain r st1 where b: "build_geometry ev cfg md st ?path g (col_pose c) = (r, st1)"
    by (cases "build_geometry ev cfg md st ?path g (col_pose c)")
  from build_geometry_broken [OF br at b] Some
  have at1: "attempts a (n + length (filter (tried ev a) (geometry_mesh_path (col_geometry c)))) st1"
    by simp
  have "quiet a st1 (build_collision ev cfg md par st c)"
    using Some b
    by (auto simp: build_collision_def Let_def apply_collision_def quiet_emit
             split: option.splits)
  from quiet_attempts [OF this at1] show ?thesis .
qed

lemma foldl_broken:
  assumes step: "\<And>s x k. attempts a k s \<Longrightarrow> attempts a (k + length (filter P (h x))) (f s x)"
  shows "attempts a n st
    \<Longrightarrow> attempts a (n + length (filter P (concat (map h xs)))) (foldl f st xs)"
proof (induction xs arbitrary: st n)
  case Nil
  then show ?case by simp
next
  case (Cons x xs)
  from Cons.IH [OF step [OF Cons.prems]] show ?case by (simp add: add.assoc)
qed

lemma build_link_broken:
  assumes br: "mesh_broken ev a" and at: "attempts a n st"
  shows "attempts a (n + length (filter (tried ev a) (link_mesh_paths (include_collision cfg) l)))
           (build_link ev cfg md looks mp st l)"
proof -
  let ?lp = "mp @ ''/'' @ sanitize_usd_name (link_name l)"
  let ?st1 = "emit [DefineXform ?lp, set_xform cfg ?lp (link_pose l) None] st"
  let ?st2 = "if include_physics cfg then apply_rigid_body ?lp l ?st1 else ?st1"
  let ?st3 = "if visuals l \<noteq> []
              then foldl (build_visual ev cfg md looks (?lp @ ''/visuals''))
                     (emit [DefineScope (?lp @ ''/visuals'')] ?st2) (visuals l)
              else ?st2"
  let ?nv = "length (filter (tried ev a)
                (concat (map (\<lambda>v. geometry_mesh_path (vis_geometry v)) (visuals l))))"
  let ?nc = "length (filter (tried ev a)
                (concat (map (\<lambda>c. geometry_mesh_path (col_geometry c)) (collisions l))))"
  have "quiet a st ?st1" by (simp add: quiet_emit)
  moreover have "quiet a ?st1 ?st2"
    by (auto simp: apply_rigid_body_def intro!: quiet_emit split: option.splits)
  ultimately have "quiet a st ?st2" by (rule quiet_trans)
  from quiet_attempts [OF this at] have at2: "attempts a n ?st2" .
  have at3: "attempts a (n + ?nv) ?st3"
  proof (cases "visuals l = []")
    case True
    with at2 show ?thesis by simp
  next
    case False
    have "attempts a n (emit [DefineScope (?lp @ ''/visuals'')] ?st2)"
      by (rule quiet_attempts [OF quiet_emit at2]) simp
    from foldl_broken [where f = "build_visual ev cfg md looks (?lp @ ''/visuals'')"
                         and h = "\<lambda>v. geometry_mesh_path (vis_geometry v)"
                         and P = "tried ev a", OF build_visual_broken [OF br] this]
    show ?thesis using False by simp
  qed
  show ?thesis
  proof (cases "include_collision cfg \<and> collisions l \<noteq> []")
    case True
    have "attempts a (n + ?nv) (emit [DefineScope (?lp @ ''/collisions'')] ?st3)"
      by (rule quiet_attempts [OF quiet_emit at3]) simp
    from foldl_broken [where f = "build_collision ev cfg md (?lp @ ''/collisions'')"
                         and h = "\<lambda>c. geometry_mesh_path (col_geometry c)"
                         and P = "tried ev a", OF build_collision_broken [OF br] this]
    have "attempts a (n + ?nv + ?nc)
            (foldl (build_collision ev cfg md (?lp @ ''/collisions''))
               (emit [DefineScope (?lp @ ''/collisions'')] ?st3) (collisions l))" .
    with True show ?thesis
      unfolding build_link_def Let_def link_mesh_paths_def by (simp add: add.assoc)
  next
    case False
    then have "build_link ev cfg md looks mp st l = ?st3"
      unfolding build_link_def Let_def by auto
    moreover from False have "length (filter (tried ev a) (link_mesh_paths (include_collision cfg) l)) = ?nv"
      by (auto simp: link_mesh_paths_def)
    ultimately show ?thesis using at3 by simp
  qed
qed

lemma quiet_build_start: "quiet a st (build_start cfg st model)"
  by (auto simp: build_start_def Let_def setup_articulation_root_def
           intro!: quiet_emit quiet_emit_after)

lemma quiet_build_finish: "quiet a st (build_finish cfg st model)"
proof -
  have "quiet a s (emit (create_joint_events mp x) s)" for s x mp
    by (rule quiet_emit [OF create_joint_events_no_run])
  then have "quiet a st (foldl (\<lambda>s j. emit (create_joint_events mp j) s) st js)" for mp js
    by (rule quiet_foldl)
  then show ?thesis
    by (auto simp: build_finish_def intro!: quiet_emit_after)
qed

lemma build_broken:
  assumes br: "mesh_broken ev a" and at: "attempts a n st"
  shows "attempts a (n + length (filter (tried ev a) (mesh_paths (include_collision cfg) model)))
           (build ev cfg md st model)"
proof -
  let ?f = "build_link ev cfg md (''/'' @ sanitize_usd_name (model_name model) @ ''/Looks'')
                 (''/'' @ sanitize_usd_name (model_name model))"
  from quiet_attempts [OF quiet_build_start at]
  have "attempts a n (build_start cfg st model)" .
  from foldl_broken [where f = ?f and h = "link_mesh_paths (include_collision cfg)"
                       and P = "tried ev a", OF build_link_broken [OF br] this]
  have "attempts a (n + length (filter (tried ev a) (mesh_paths (include_collision cfg) model)))
          (foldl ?f (build_start cfg st model) (links model))"
    by (simp add: mesh_paths_def)
  from quiet_attempts [OF quiet_build_finish this] show ?thesis by (simp add: build_split)
qed

text \<open>
  Claim C9, amended: within one run, a mesh path whose conversion fails at the external
  converter is never cached, and the conversion is attempted again at every use: once in
  the pre-conversion pass for each distinct resolved path that exists and normalises to
  it, and once more during the build for every visual (and, when collisions are included,
  every collision) whose mesh geometry has such a resolved path; at least one error is
  logged per attempt.
\<close>

theorem failed_conversion_attempts:
  assumes "mesh_broken ev a"
  shows "invocations_of a (trace (snd (convert_model ev cfg model)))
         = length (filter (\<lambda>q. path_exists ev q \<and> abspath ev q = a)
                     (sorted_mesh_paths (include_collision cfg) model))
           + length (filter (\<lambda>q. q \<noteq> [] \<and> path_exists ev q \<and> abspath ev q = a)
                       (mesh_paths (include_collision cfg) model))
     \<and> map_of (mc_cache (snd (convert_model ev cfg model))) a = None
     \<and> invocations_of a (trace (snd (convert_model ev cfg model)))
         \<le> error_logs (trace (snd (convert_model ev cfg model)))"
proof -
  let ?md = "mesh_output_dir (dirname (output_path cfg))"
  let ?ps = "sorted_mesh_paths (include_collision cfg) model"
  obtain st1 n where pre: "preconvert ev ?md ?ps (init_state, 0) = (st1, n)"
    by (cases "preconvert ev ?md ?ps (init_state, 0)")
  have final: "snd (convert_model ev cfg model) = build ev cfg ?md st1 model"
    using pre by (simp add: convert_model_def Let_def)
  have "attempts a 0 init_state" by (simp add: attempts_def init_state_def)
  from build_broken [OF assms preconvert_broken [OF assms this pre]]
  show ?thesis
    unfolding final attempts_def tried_def by simp
qed

lemmas run_defs = convert_model_def build_def build_link_def build_visual_def build_collision_def
  build_geometry_def build_mesh_reference_def mc_convert_def preconvert.simps
  sorted_mesh_paths_def mesh_paths_def link_mesh_paths_def geometry_mesh_path_def
  emit_def init_state_def mesh_output_dir_def apply_rigid_body_def setup_articulation_root_def
  apply_collision_def create_joint_events_def invocations_def invocations_of_def
  SUPPORTED_MESH_FORMATS_def builder_output_dir_def set_xform_def

lemmas path_defs = dirname_def basename_def splitext_def path_join_def startswith_def
  lower_def lower_char_def

lemmas example_defs = example_env_def example_cfg_def example_model_def mesh_visual_def
  mesh_collision_def example_mesh_def empty_geometry_def

lemma example_paths:
  "dirname ''/out/model.usda'' = ''/out''"
  "path_join ''/out'' ''meshes'' = ''/out/meshes''"
  "lower (snd (splitext ''/m/meshes/a.dae'')) = ''.dae''"
  "fst (splitext (basename ''/m/meshes/a.dae'')) = ''a''"
  "path_join ''/out/meshes'' ''a.usd'' = ''/out/meshes/a.usd''"
  by (simp_all add: path_defs)

lemma example_names:
  "sanitize_usd_name ''m'' = ''m''" "sanitize_usd_name ''base'' = ''base''"
  "sanitize_usd_name ''v1'' = ''v1''" "sanitize_usd_name ''v2'' = ''v2''"
  "sanitize_usd_name ''c1'' = ''c1''"
  by (simp_all add: sanitize_usd_name_def replace_char_def char_class_defs)


lemma example_mesh_broken: "mesh_broken (example_env False) ''/m/meshes/a.dae''"
  by (simp add: mesh_broken_def example_env_def example_paths SUPPORTED_MESH_FORMATS_def)



text \<open>
  The order of the pre-conversion pass on an example: the model names \<open>b.dae\<close> before
  \<open>a.dae\<close>, and the run converts \<open>a.dae\<close> first.
\<close>

lemma example_sorted:
  "sorted_mesh_paths True (example_model [mesh_visual_of ''v1'' ''/m/meshes/b.dae'',
                                          mesh_visual_of ''v2'' ''/m/meshes/a.dae''] [])
   = [''/m/meshes/a.dae'', ''/m/meshes/b.dae'']"
  by (simp add: sorted_mesh_paths_def mesh_paths_def link_mesh_paths_def
                geometry_mesh_path_def example_defs mesh_visual_of_def)

lemma example_paths_b:
  "lower (snd (splitext ''/m/meshes/b.dae'')) = ''.dae''"
  "fst (splitext (basename ''/m/meshes/b.dae'')) = ''b''"
  "path_join ''/out/meshes'' ''b.usd'' = ''/out/meshes/b.usd''"
  by (simp_all add: path_defs)

lemma pre_pass_sorted_example:
  "pre_pass (trace (snd (convert_model two_mesh_env example_cfg
                           (example_model [mesh_visual_of ''v1'' ''/m/meshes/b.dae'',
                                           mesh_visual_of ''v2'' ''/m/meshes/a.dae''] []))))
   = [CopyAdjacentTextures ''/m/meshes/a.dae'' True,
      RunConversion ''/m/meshes/a.dae'' ''/out/meshes/a.usd'' True,
      CopyAdjacentTextures ''/m/meshes/b.dae'' True,
      RunConversion ''/m/meshes/b.dae'' ''/out/meshes/b.usd'' True]"
proof -
  have cfg: "include_collision example_cfg = True" "output_path example_cfg = ''/out/model.usda''"
    by (simp_all add: example_cfg_def)
  show ?thesis
    unfolding pre_pass_preconvert cfg example_sorted
    by (simp add: mc_convert_def emit_def init_state_def mesh_output_dir_def invocations_def
                  SUPPORTED_MESH_FORMATS_def two_mesh_env_def example_env_def
                  example_paths example_paths_b unique_usd_path.simps Let_def)
qed

text \<open>
  The order is part of the statement: the events of a pass that converts \<open>b.dae\<close> before
  \<open>a.dae\<close> are not, path after path in increasing order, the events of the pre-conversion
  of each path.
\<close>

lemma reversed_pass_refused:
  "\<not> (\<exists>blocks. list_all2 (pre_pass_block two_mesh_env)
                    [''/m/meshes/a.dae'', ''/m/meshes/b.dae''] blocks
         \<and> concat blocks
             = [CopyAdjacentTextures ''/m/meshes/b.dae'' True,
                RunConversion ''/m/meshes/b.dae'' ''/out/meshes/b.usd'' True,
                CopyAdjacentTextures ''/m/meshes/a.dae'' True,
                RunConversion ''/m/meshes/a.dae'' ''/out/meshes/a.usd'' True])"
  by (auto simp: list_all2_Cons1 pre_pass_block_def two_mesh_env_def example_env_def)

text \<open>
  Claim C9, as stated: a mesh path whose conversion fails during the pre-conversion pass
  is not attempted again in the same run. It fails for a model with one visual whose mesh
  file exists and on which the converter fails: the pre-conversion pass invokes the
  converter once and the build invokes it a second time.
\<close>

theorem failed_conversion_attempted_again:
  "invocations_of ''/m/meshes/a.dae''
     (trace (snd (convert_model (example_env False) example_cfg
                    (example_model [mesh_visual ''v1''] [])))) = 2"
  by (simp add: run_defs example_defs example_paths example_names unique_usd_path.simps Let_def)

theorem failed_conversion_attempts_witness:
  "mesh_broken (example_env False) ''/m/meshes/a.dae''
   \<and> invocations_of ''/m/meshes/a.dae''
        (trace (snd (convert_model (example_env False) example_cfg
                       (example_model [mesh_visual ''v1''] [mesh_collision ''c1''])))) = 1 + 2
   \<and> map_of (mc_cache (snd (convert_model (example_env False) example_cfg
                       (example_model [mesh_visual ''v1''] [mesh_collision ''c1'']))))
         ''/m/meshes/a.dae'' = None"
proof -
  let ?m = "example_model [mesh_visual ''v1''] [mesh_collision ''c1'']"
  have n1: "length (filter (\<lambda>q. path_exists (example_env False) q
                              \<and> abspath (example_env False) q = ''/m/meshes/a.dae'')
                      (sorted_mesh_paths (include_collision example_cfg) ?m)) = 1"
    and n2: "length (filter (\<lambda>q. q \<noteq> [] \<and> path_exists (example_env False) q
                              \<and> abspath (example_env False) q = ''/m/meshes/a.dae'')
                      (mesh_paths (include_collision example_cfg) ?m)) = 2"
    by (simp_all add: sorted_mesh_paths_def mesh_paths_def link_mesh_paths_def
                      geometry_mesh_path_def example_defs)
  from failed_conversion_attempts [OF example_mesh_broken, of example_cfg ?m] n1 n2
    example_mesh_broken
  show ?thesis by simp
qed

section \<open>Properties of the material cache\<close>

lemma copy_texture_material_cache:
  "material_cache (snd (copy_texture ev md s src)) = material_cache s"
  by (simp add: copy_texture_def Let_def)

lemma create_material_hit:
  "map_of (material_cache st) (material_hash ev m) = Some q
   \<Longrightarrow> create_material ev md looks st m h = (q, st)"
  by (simp add: create_material_def Let_def)

lemma create_material_miss:
  assumes "map_of (material_cache st) (material_hash ev m) = None"
  shows "fst (create_material ev md looks st m h)
           = looks @ ''/'' @ (if h \<noteq> [] then sanitize_usd_name h
                              else ''material_'' @ str_nat (counter st))
     \<and> map_of (material_cache (snd (create_material ev md looks st m h)))
         = (map_of (material_cache st))
             (material_hash ev m \<mapsto> fst (create_material ev md looks st m h))"
proof (cases "pbr m")
  case None
  with assms show ?thesis
    by (simp add: create_material_def Let_def case_prod_beta update_conv')
next
  case (Some pb)
  show ?thesis
  proof (cases "albedo_map_resolved pb \<noteq> [] \<and> path_exists ev (albedo_map_resolved pb)")
    case True
    with assms Some show ?thesis
      by (simp add: create_material_def Let_def case_prod_beta update_conv'
                    copy_texture_material_cache)
  next
    case False
    with assms Some show ?thesis
      by (simp add: create_material_def Let_def case_prod_beta update_conv'
                    copy_texture_material_cache)
  qed
qed

text \<open>
  A material created once is reused: a second request for the same material, under any
  name hint, returns the same path and has no effect; and a cached material stays cached
  when other materials are created.
\<close>

lemma create_material_again:
  assumes "create_material ev md looks st m h = (p, st1)"
  shows "create_material ev md looks st1 m h' = (p, st1)"
proof (cases "map_of (material_cache st) (material_hash ev m)")
  case (Some q)
  from create_material_hit [OF Some, of md looks h] assms have "p = q" "st1 = st" by simp_all
  with Some show ?thesis by (simp add: create_material_hit)
next
  case None
  from create_material_miss [OF None, of md looks h] assms
  have "map_of (material_cache st1) (material_hash ev m) = Some p" by simp
  then show ?thesis by (rule create_material_hit)
qed

lemma create_material_keeps_cached:
  assumes "map_of (material_cache st) k = Some p"
  shows "map_of (material_cache (snd (create_material ev md looks st m h))) k = Some p"
proof (cases "map_of (material_cache st) (material_hash ev m)")
  case (Some q)
  with assms show ?thesis by (simp add: create_material_hit)
next
  case None
  with assms have "material_hash ev m \<noteq> k" by auto
  with create_material_miss [OF None, of md looks h] assms show ?thesis by simp
qed

text \<open>
  With a name hint the path of a new material is made of the hint alone: two materials
  created under the same hint get the same path, whatever their fields.
\<close>

lemma create_material_same_hint:
  assumes "h \<noteq> []" and "material_cache st = []"
  shows "fst (create_material ev md looks (snd (create_material ev md looks st m1 h)) m2 h)
         = fst (create_material ev md looks st m1 h)"
proof -
  let ?st1 = "snd (create_material ev md looks st m1 h)"
  from assms(2) have none: "map_of (material_cache st) (material_hash ev m1) = None" by simp
  from create_material_miss [OF none, of md looks h] assms
  have p1: "fst (create_material ev md looks st m1 h) = looks @ ''/'' @ sanitize_usd_name h"
    and c1: "map_of (material_cache ?st1)
             = [material_hash ev m1 \<mapsto> looks @ ''/'' @ sanitize_usd_name h]"
    by simp_all
  show ?thesis
  proof (cases "material_hash ev m2 = material_hash ev m1")
    case True
    with c1 have "map_of (material_cache ?st1) (material_hash ev m2)
                  = Some (looks @ ''/'' @ sanitize_usd_name h)" by simp
    from create_material_hit [OF this] p1 show ?thesis by simp
  next
    case False
    with c1 have "map_of (material_cache ?st1) (material_hash ev m2) = None" by simp
    from create_material_miss [OF this, of md looks h] assms(1) p1 show ?thesis by simp
  qed
qed

lemma example_names2:
  "sanitize_usd_name ''a'' = ''a''" "sanitize_usd_name ''b'' = ''b''"
  "sanitize_usd_name ''visual'' = ''visual''"
  by (simp_all add: sanitize_usd_name_def replace_char_def char_class_defs)

lemma is_material_event_set_xform [simp]: "\<not> is_material_event (set_xform cfg p pose sc)"
  by (simp add: set_xform_def)

lemma example_hashes:
  "material_hash material_env
     \<lparr>diffuse = (1, 0, 0), specular = (1 / 10, 1 / 10, 1 / 10), pbr = None\<rparr>
     = ''d=(1.0, 0.0, 0.0)|s=(0.1, 0.1, 0.1)''"
  "material_hash material_env
     \<lparr>diffuse = (0, 0, 1), specular = (1 / 10, 1 / 10, 1 / 10), pbr = None\<rparr>
     = ''d=(0.0, 0.0, 1.0)|s=(0.1, 0.1, 0.1)''"
  by (simp_all add: material_hash_def tuple_repr_def material_env_def example_env_def
                    example_repr_def)

text \<open>
  Claim C6. Two visuals with identical material fields share one material handle, and a
  visual that differs in a field gets a distinct handle. The handle of a new material is
  \<open>Looks/<sanitized visual name>\<close>: for two visuals both named \<open>visual\<close> (in two links),
  one red and one blue, the keys differ, so the second material is created too, at the
  path of the first, and both visuals are bound to the one handle \<open>/m/Looks/visual\<close>.
\<close>

theorem same_name_same_material_path:
  "filter is_material_event
     (trace (snd (convert_model material_env example_cfg two_material_model)))
   = [DefineMaterial ''/m/Looks/visual''
        \<lparr>diffuse_color = (1, 0, 0), metallic = 0, shader_roughness = 1 / 2,
         diffuse_texture = None, ior = None\<rparr>,
      BindMaterial ''/m/a/visuals/visual/Box'' ''/m/Looks/visual'',
      DefineMaterial ''/m/Looks/visual''
        \<lparr>diffuse_color = (0, 0, 1), metallic = 0, shader_roughness = 1 / 2,
         diffuse_texture = None, ior = None\<rparr>,
      BindMaterial ''/m/b/visuals/visual/Box'' ''/m/Looks/visual'']"
  by (simp add: convert_model_def build_def build_link_def build_visual_def build_geometry_def
        build_box_def create_material_def assign_material_def sorted_mesh_paths_def
        mesh_paths_def link_mesh_paths_def geometry_mesh_path_def emit_def init_state_def
        apply_rigid_body_def setup_articulation_root_def two_material_model_def
        material_visual_def empty_geometry_def example_names example_names2 example_hashes
        example_cfg_def Let_def)

end
